theory Spec2Isabelle
  imports Main "HOL-Library.AList" "HOL-Library.Sublist"
begin

section \<open>The pool manager (ClientManager.py)\<close>

text \<open>
  A peer address is the tuple \<open>(host_ip, host_port)\<close>. The manager holds the list
  \<open>peers\<close> of available addresses and the dictionary \<open>active_clients\<close> from client
  ids to addresses. The dictionary is kept as an association list in insertion order, as
  a Python dict is: storing under an existing key overwrites in place, storing under a
  new key appends (\<open>AList.update\<close>), and \<open>del\<close> removes the entry (\<open>AList.delete\<close>).
  Every method body runs under the manager's lock, so each method is one atomic step on the
  manager state; the printing is left out.
\<close>

type_synonym peer = "string \<times> int"

record manager =
  peers :: "peer list"
  active_clients :: "(int \<times> peer) list"

definition init_manager :: manager where
  "init_manager = \<lparr>peers = [], active_clients = []\<rparr>"

definition add_peer :: "string \<Rightarrow> int \<Rightarrow> manager \<Rightarrow> manager" where
  "add_peer host_ip host_port m = m\<lparr>peers := peers m @ [(host_ip, host_port)]\<rparr>"

definition get_new_peer :: "int \<Rightarrow> manager \<Rightarrow> peer option \<times> manager" where
  "get_new_peer client_id m =
     (case peers m of
        new_peer # rest \<Rightarrow>
          (Some new_peer,
           m\<lparr>peers := rest,
             active_clients := AList.update client_id new_peer (active_clients m)\<rparr>)
      | [] \<Rightarrow> (None, m))"

definition handle_client_failure :: "int \<Rightarrow> manager \<Rightarrow> manager" where
  "handle_client_failure client_id m =
     (if client_id \<in> fst ` set (active_clients m)
      then m\<lparr>active_clients := AList.delete client_id (active_clients m)\<rparr>
      else m)"

definition remove_peer :: "string \<Rightarrow> int \<Rightarrow> manager \<Rightarrow> manager" where
  "remove_peer host_ip host_port m =
     (let peer = (host_ip, host_port)
      in if peer \<in> set (peers m) then m\<lparr>peers := remove1 peer (peers m)\<rparr> else m)"

text \<open>
  The calls a program can make on a manager, and the state after a sequence of them,
  starting from a given state.
\<close>

datatype mgr_op =
    AddPeer string int
  | GetNewPeer int
  | RemovePeer string int
  | HandleClientFailure int

fun apply_op :: "mgr_op \<Rightarrow> manager \<Rightarrow> manager" where
  "apply_op (AddPeer host_ip host_port) m = add_peer host_ip host_port m"
| "apply_op (GetNewPeer client_id) m = snd (get_new_peer client_id m)"
| "apply_op (RemovePeer host_ip host_port) m = remove_peer host_ip host_port m"
| "apply_op (HandleClientFailure client_id) m = handle_client_failure client_id m"

fun run_ops :: "mgr_op list \<Rightarrow> manager \<Rightarrow> manager" where
  "run_ops [] m = m"
| "run_ops (x # xs) m = run_ops xs (apply_op x m)"

text \<open>
  \<open>fresh_adds m ops\<close>: along the run of \<open>ops\<close> from \<open>m\<close>, every \<open>add_peer\<close> is
  called with an address that is at that moment neither in the pool nor assigned to a client.
\<close>

fun fresh_adds :: "manager \<Rightarrow> mgr_op list \<Rightarrow> bool" where
  "fresh_adds m [] = True"
| "fresh_adds m (x # xs) =
     ((case x of
         AddPeer host_ip host_port \<Rightarrow>
           (host_ip, host_port) \<notin> set (peers m) \<and>
           (host_ip, host_port) \<notin> snd ` set (active_clients m)
       | _ \<Rightarrow> True)
      \<and> fresh_adds (apply_op x m) xs)"

text \<open>The invariant behind exclusive assignment.\<close>

definition mgr_inv :: "manager \<Rightarrow> bool" where
  "mgr_inv m \<longleftrightarrow>
     distinct (peers m) \<and> distinct (map fst (active_clients m)) \<and>
     distinct (map snd (active_clients m)) \<and>
     set (peers m) \<inter> snd ` set (active_clients m) = {}"

section \<open>JSON values\<close>

text \<open>
  The values \<open>json.loads\<close> produces and \<open>json.dumps\<close> accepts, as Python sees them:
  \<open>None\<close>, booleans, integers, strings, lists and dicts with string keys (in insertion
  order). Floating-point numbers are not modelled. A Python \<open>str\<close> is represented by its
  UTF-8 bytes, so \<open>encode\<close> is the identity and \<open>decode\<close> is the identity on
  well-formed UTF-8 and raises otherwise.

  The \<open>json\<close> module is a library outside the repository: the functions below take
  \<open>loads :: string \<Rightarrow> json option\<close> (\<open>None\<close> when \<open>json.loads\<close> raises) and
  \<open>dumps :: json \<Rightarrow> string\<close> as parameters.
\<close>

datatype json =
    JNull
  | JBool bool
  | JInt int
  | JStr string
  | JArr "json list"
  | JObj "(string \<times> json) list"

datatype error =
    DecodeError | TypeError | KeyError | ValueError | SocketError
  | OverflowError | AttributeError

section \<open>The client (Client.py)\<close>

text \<open>
  What a client does to the outside world is recorded in its \<open>history\<close>: the calls of
  \<open>connect\<close> and \<open>close\<close> on its socket, the bytes written, and the calls made on the
  manager.
\<close>

datatype event =
    EConnect peer
  | EClose
  | ESend string
  | EGetNewPeer int
  | EHandleClientFailure int

subsection \<open>The socket library\<close>

text \<open>
  The \<open>socket\<close> module is outside the repository. A call of \<open>socket.connect\<close> has one
  of three outcomes: the connection is made; the call raises \<open>socket.error\<close> or
  \<open>socket.timeout\<close>, which \<open>Client.connect\<close> catches; or it raises something else, which
  nothing in the client catches. What the network and the library answer is the parameter
  \<open>lib\<close>: \<open>connect_result lib h a\<close> is the answer to a call with address \<open>a\<close> after the
  history \<open>h\<close>, and \<open>timeout_check lib t\<close> is the exception, if any, with which the library
  refuses a timeout value it cannot represent. Two refusals do not depend on the parameter:
  a port outside \<open>0..65535\<close> raises \<open>OverflowError\<close>, and a negative timeout raises
  \<open>ValueError\<close>. Creating a socket object is taken to succeed.
\<close>

datatype outcome = Accepted | Failed | Raised error

record sockets =
  timeout_check :: "int \<Rightarrow> error option"
  connect_result :: "event list \<Rightarrow> peer \<Rightarrow> outcome"

fun raises :: "outcome \<Rightarrow> bool" where
  "raises (Raised e) = True"
| "raises _ = False"

definition port_ok :: "int \<Rightarrow> bool" where
  "port_ok p \<longleftrightarrow> 0 \<le> p \<and> p \<le> 65535"

definition settimeout :: "sockets \<Rightarrow> int \<Rightarrow> error option" where
  "settimeout lib t =
     (case timeout_check lib t of
        Some e \<Rightarrow> Some e
      | None \<Rightarrow> if t < 0 then Some ValueError else None)"

definition socket_connect :: "sockets \<Rightarrow> event list \<Rightarrow> peer \<Rightarrow> outcome" where
  "socket_connect lib h a =
     (case connect_result lib h a of
        Raised e \<Rightarrow> Raised e
      | r \<Rightarrow> if port_ok (snd a) then r else Raised OverflowError)"

subsection \<open>The methods\<close>

text \<open>
  A method that can be left by an exception returns the exception, if any, together with
  the client as it is at that moment.
\<close>

record client =
  manager :: manager
  host_ip :: string
  host_port :: int
  timeout :: int
  max_retries :: int
  client_socket :: bool \<comment> \<open>\<open>False\<close> while \<open>self.client_socket\<close> is \<open>None\<close>\<close>
  connected :: bool
  client_id :: int
  history :: "event list"

definition new_client :: "manager \<Rightarrow> string \<Rightarrow> int \<Rightarrow> int \<Rightarrow> int \<Rightarrow> int \<Rightarrow> client" where
  "new_client mgr ip port tmo retries cid =
     \<lparr>manager = mgr, host_ip = ip, host_port = port, timeout = tmo, max_retries = retries,
      client_socket = False, connected = False, client_id = cid, history = []\<rparr>"

definition initialize_socket :: "sockets \<Rightarrow> client \<Rightarrow> error option \<times> client" where
  "initialize_socket lib c =
     (let c1 = c\<lparr>client_socket := True\<rparr>
      in (settimeout lib (timeout c1), c1))"

definition connect :: "sockets \<Rightarrow> client \<Rightarrow> error option \<times> client" where
  "connect lib c =
     (case initialize_socket lib c of
        (Some e, c1) \<Rightarrow> (Some e, c1)
      | (None, c1) \<Rightarrow>
          (let target = (host_ip c1, host_port c1);
               c2 = c1\<lparr>history := history c1 @ [EConnect target]\<rparr>
           in case socket_connect lib (history c1) target of
                Accepted \<Rightarrow> (None, c2\<lparr>connected := True\<rparr>)
              | Failed \<Rightarrow> (None, c2\<lparr>connected := False\<rparr>)
              | Raised e \<Rightarrow> (Some e, c2)))"

definition close :: "client \<Rightarrow> client" where
  "close c =
     (if client_socket c then c\<lparr>connected := False, history := history c @ [EClose]\<rparr>
      else c)"

definition notify_manager_failure :: "client \<Rightarrow> client" where
  "notify_manager_failure c =
     close (c\<lparr>manager := handle_client_failure (client_id c) (manager c),
              history := history c @ [EHandleClientFailure (client_id c)]\<rparr>)"

definition request_new_peer :: "client \<Rightarrow> client" where
  "request_new_peer c =
     (case get_new_peer (client_id c) (manager c) of
        (new_peer, m) \<Rightarrow>
          (let c1 = c\<lparr>manager := m, history := history c @ [EGetNewPeer (client_id c)]\<rparr>
           in case new_peer of
                Some (ip, port) \<Rightarrow> c1\<lparr>host_ip := ip, host_port := port\<rparr>
              | None \<Rightarrow> notify_manager_failure c1))"

text \<open>
  The block under the lock in \<open>reconnect\<close>: close when connected, then connect.
\<close>

definition reconnect_attempt :: "sockets \<Rightarrow> client \<Rightarrow> error option \<times> client" where
  "reconnect_attempt lib c = connect lib (if connected c then close c else c)"

text \<open>
  The \<open>while retries < self.max_retries\<close> loop of \<open>reconnect\<close>, from a given count. The
  result is \<open>Inr\<close> of the boolean returned, or \<open>Inl\<close> of the exception that leaves the
  loop.
\<close>

function reconnect_loop :: "sockets \<Rightarrow> int \<Rightarrow> client \<Rightarrow> (error + bool) \<times> client" where
  "reconnect_loop lib retries c =
     (if retries < max_retries c then
        (case reconnect_attempt lib c of
           (Some e, c1) \<Rightarrow> (Inl e, c1)
         | (None, c1) \<Rightarrow>
             if connected c1 then (Inr True, c1)
             else reconnect_loop lib (retries + 1) (request_new_peer c1))
      else (Inr False, notify_manager_failure c))"
  by pat_completeness auto
termination
  apply (relation "measure (\<lambda>(lib, retries, c). nat (max_retries c - retries))")
   apply simp
  apply (auto simp: request_new_peer_def notify_manager_failure_def close_def connect_def
      reconnect_attempt_def initialize_socket_def Let_def get_new_peer_def
      split: prod.splits option.splits outcome.splits list.splits if_splits)
  done

definition reconnect :: "sockets \<Rightarrow> client \<Rightarrow> (error + bool) \<times> client" where
  "reconnect lib c = reconnect_loop lib 0 c"

text \<open>
  \<open>send\<close>: \<open>write_ok\<close> says whether \<open>sendall\<close> succeeds; when it does not it raises a
  socket error, which \<open>send\<close> catches. The value returned is \<open>Inr None\<close> for Python's
  \<open>None\<close>; \<open>Inr (Some b)\<close> would be a boolean. With \<open>self.client_socket\<close> still \<open>None\<close>
  the call of \<open>sendall\<close> raises \<open>AttributeError\<close>. The argument \<open>data\<close> ranges over the
  values \<open>json.dumps\<close> accepts.
\<close>

definition send :: "(json \<Rightarrow> string) \<Rightarrow> sockets \<Rightarrow> bool \<Rightarrow> json \<Rightarrow> client
    \<Rightarrow> (error + bool option) \<times> client" where
  "send dumps lib write_ok data c =
     (case (if \<not> connected c then reconnect lib c else (Inr True, c)) of
        (Inl e, c1) \<Rightarrow> (Inl e, c1)
      | (Inr False, c1) \<Rightarrow> (Inr None, c1)
      | (Inr True, c1) \<Rightarrow>
          if \<not> client_socket c1 then (Inl AttributeError, c1)
          else if write_ok
            then (Inr None, c1\<lparr>history := history c1 @ [ESend (dumps data)]\<rparr>)
            else (case reconnect lib c1 of
                    (Inl e, c2) \<Rightarrow> (Inl e, c2)
                  | (Inr b, c2) \<Rightarrow> (Inr None, c2)))"

text \<open>
  \<open>receive\<close>: the outcome of \<open>recv(1024)\<close> is either a socket error or the bytes read,
  empty when the peer has closed the connection. The result is either an exception that
  leaves \<open>receive\<close> (the \<open>except\<close> clause catches socket errors only) or the value
  returned, where \<open>JNull\<close> is Python's \<open>None\<close>.
\<close>

datatype recv_result = RecvError | RecvData string


declare reconnect_loop.simps [simp del]

text \<open>
  Observations on a history: the events a call added to it, the number of calls of
  \<open>connect\<close> in a list of events, and the number of calls of \<open>connect\<close> with one address
  that come before the first request for a new peer.
\<close>

definition events_since :: "client \<Rightarrow> client \<Rightarrow> event list" where
  "events_since c c' = drop (length (history c)) (history c')"

fun connect_attempts :: "event list \<Rightarrow> nat" where
  "connect_attempts [] = 0"
| "connect_attempts (EConnect a # es) = Suc (connect_attempts es)"
| "connect_attempts (e # es) = connect_attempts es"

fun attempts_before_request :: "peer \<Rightarrow> event list \<Rightarrow> nat" where
  "attempts_before_request target [] = 0"
| "attempts_before_request target (EGetNewPeer cid # es) = 0"
| "attempts_before_request target (EConnect a # es) =
     (if a = target then Suc (attempts_before_request target es)
      else attempts_before_request target es)"
| "attempts_before_request target (e # es) = attempts_before_request target es"

text \<open>
  Two libraries for the examples: with \<open>unreachable\<close> every call of \<open>connect\<close> is refused
  by the network, with \<open>reachable\<close> every call succeeds.
\<close>

definition unreachable :: sockets where
  "unreachable = \<lparr>timeout_check = (\<lambda>t. None), connect_result = (\<lambda>h a. Failed)\<rparr>"

definition reachable :: sockets where
  "reachable = \<lparr>timeout_check = (\<lambda>t. None), connect_result = (\<lambda>h a. Accepted)\<rparr>"

section \<open>The line protocol (p2p.py)\<close>

subsection \<open>Python operations on decoded values\<close>

text \<open>
  \<open>key in message\<close>: key membership for a dict, element membership for a list,
  substring test for a string; any other operand raises \<open>TypeError\<close>.
\<close>

fun py_contains :: "string \<Rightarrow> json \<Rightarrow> error + bool" where
  "py_contains k (JObj kvs) = Inr (k \<in> fst ` set kvs)"
| "py_contains k (JArr xs) = Inr (JStr k \<in> set xs)"
| "py_contains k (JStr s) = Inr (sublist k s)"
| "py_contains k _ = Inl TypeError"

text \<open>\<open>message[key]\<close> with a string key: only a dict supports it.\<close>

fun py_getitem :: "json \<Rightarrow> string \<Rightarrow> error + json" where
  "py_getitem (JObj kvs) k = (case map_of kvs k of Some v \<Rightarrow> Inr v | None \<Rightarrow> Inl KeyError)"
| "py_getitem _ k = Inl TypeError"

text \<open>\<open>x + 1\<close>: defined on integers and on booleans (which count as 0 and 1).\<close>

fun py_add1 :: "json \<Rightarrow> error + json" where
  "py_add1 (JInt n) = Inr (JInt (n + 1))"
| "py_add1 (JBool b) = Inr (JInt (if b then 2 else 1))"
| "py_add1 _ = Inl TypeError"

text \<open>
  The two tests of \<open>handle_json_rpc\<close>, with Python's short-circuit evaluation:
  \<open>'method' in message and 'params' in message and 'id' in message\<close> and
  \<open>'result' in message or 'error' in message\<close>.
\<close>

definition request_shape :: "json \<Rightarrow> error + bool" where
  "request_shape message =
     (case py_contains ''method'' message of
        Inl e \<Rightarrow> Inl e
      | Inr False \<Rightarrow> Inr False
      | Inr True \<Rightarrow>
          (case py_contains ''params'' message of
             Inl e \<Rightarrow> Inl e
           | Inr False \<Rightarrow> Inr False
           | Inr True \<Rightarrow> py_contains ''id'' message))"

definition response_shape :: "json \<Rightarrow> error + bool" where
  "response_shape message =
     (case py_contains ''result'' message of
        Inl e \<Rightarrow> Inl e
      | Inr True \<Rightarrow> Inr True
      | Inr False \<Rightarrow> py_contains ''error'' message)"

subsection \<open>The socket\<close>

text \<open>
  Of a peer socket the model keeps the list of messages written to it (\<open>sent\<close>) and the
  values that \<open>json.loads\<close> has returned to \<open>handle_json_rpc\<close> for the lines received
  on it (\<open>decoded\<close>, kept for the statements below; the code does not store them). Whether
  a write succeeds is decided by the parameter \<open>wr\<close>, from what has been written so far;
  a failed \<open>sendall\<close> raises and writes nothing.
\<close>

record peer_socket =
  sent :: "string list"
  decoded :: "json list"

definition newline :: char where
  "newline = CHR 0x0A"

definition sendall :: "(string list \<Rightarrow> bool) \<Rightarrow> string \<Rightarrow> peer_socket \<Rightarrow> error option \<times> peer_socket" where
  "sendall wr bytes s =
     (if wr (sent s) then (None, s\<lparr>sent := sent s @ [bytes]\<rparr>) else (Some SocketError, s))"

subsection \<open>Messages\<close>

definition hello_request :: "json \<Rightarrow> json" where
  "hello_request request_id =
     JObj [(''jsonrpc'', JStr ''2.0''), (''method'', JStr ''echo''),
           (''params'', JStr ''hello world''), (''id'', request_id)]"

definition error_response :: json where
  "error_response =
     JObj [(''jsonrpc'', JStr ''2.0''),
           (''error'', JObj [(''code'', JInt (- 32600)), (''message'', JStr ''Invalid Request'')]),
           (''id'', JNull)]"

definition send_hello_world :: "(json \<Rightarrow> string) \<Rightarrow> (string list \<Rightarrow> bool) \<Rightarrow> json \<Rightarrow> peer_socket
    \<Rightarrow> error option \<times> peer_socket" where
  "send_hello_world dumps wr request_id s =
     sendall wr (dumps (hello_request request_id) @ [newline]) s"

subsection \<open>Handling one line\<close>

text \<open>
  The body of the \<open>try\<close> block of \<open>handle_json_rpc\<close>: \<open>Some e\<close> in the first component
  is an exception raised inside the block; the socket is returned as it is at that point.
  The value \<open>json.loads\<close> returns is noted in \<open>decoded\<close>. The one-second pauses are
  left out.
\<close>

definition handle_request :: "(json \<Rightarrow> string) \<Rightarrow> (string list \<Rightarrow> bool) \<Rightarrow> string \<Rightarrow> json
    \<Rightarrow> peer_socket \<Rightarrow> error option \<times> peer_socket" where
  "handle_request dumps wr peer_type message s =
     (case py_getitem message ''method'' of
        Inl e \<Rightarrow> (Some e, s)
      | Inr method \<Rightarrow>
     (case py_getitem message ''params'' of
        Inl e \<Rightarrow> (Some e, s)
      | Inr params \<Rightarrow>
     (case py_getitem message ''id'' of
        Inl e \<Rightarrow> (Some e, s)
      | Inr request_id \<Rightarrow>
          (let response = [(''jsonrpc'', JStr ''2.0''), (''id'', request_id)]
           in if method = JStr ''echo'' then
                (case sendall wr
                        (dumps (JObj (AList.update ''result'' params response)) @ [newline]) s of
                   (Some e, s1) \<Rightarrow> (Some e, s1)
                 | (None, s1) \<Rightarrow>
                     if peer_type = ''Server'' then
                       (case py_add1 request_id of
                          Inl e \<Rightarrow> (Some e, s1)
                        | Inr next_id \<Rightarrow> send_hello_world dumps wr next_id s1)
                     else (None, s1))
              else
                sendall wr
                  (dumps (JObj (AList.update ''error''
                     (JObj [(''code'', JInt (- 32601)), (''message'', JStr ''Method not found'')])
                     response)) @ [newline]) s))))"

definition handle_response :: "(json \<Rightarrow> string) \<Rightarrow> (string list \<Rightarrow> bool) \<Rightarrow> string \<Rightarrow> json
    \<Rightarrow> peer_socket \<Rightarrow> error option \<times> peer_socket" where
  "handle_response dumps wr peer_type message s =
     (if peer_type = ''Client'' then
        (case py_getitem message ''id'' of
           Inl e \<Rightarrow> (Some e, s)
         | Inr response_id \<Rightarrow>
             (case py_add1 response_id of
                Inl e \<Rightarrow> (Some e, s)
              | Inr next_id \<Rightarrow> send_hello_world dumps wr next_id s))
      else (None, s))"

definition rpc_try :: "(string \<Rightarrow> json option) \<Rightarrow> (json \<Rightarrow> string) \<Rightarrow> (string list \<Rightarrow> bool)
    \<Rightarrow> peer_socket \<Rightarrow> string \<Rightarrow> string \<Rightarrow> error option \<times> peer_socket" where
  "rpc_try loads dumps wr s data peer_type =
     (case loads data of
        None \<Rightarrow> (Some DecodeError, s)
      | Some message \<Rightarrow>
          (let s0 = s\<lparr>decoded := decoded s @ [message]\<rparr>
           in case request_shape message of
                Inl e \<Rightarrow> (Some e, s0)
              | Inr True \<Rightarrow> handle_request dumps wr peer_type message s0
              | Inr False \<Rightarrow>
                  (case response_shape message of
                     Inl e \<Rightarrow> (Some e, s0)
                   | Inr True \<Rightarrow> handle_response dumps wr peer_type message s0
                   | Inr False \<Rightarrow> (Some ValueError, s0))))"

text \<open>
  \<open>handle_json_rpc\<close>: any exception of the \<open>try\<close> block is answered with the error
  response. \<open>Some e\<close> in the result is an exception that leaves the function, which only
  the write inside the \<open>except\<close> clause can raise.
\<close>

definition handle_json_rpc :: "(string \<Rightarrow> json option) \<Rightarrow> (json \<Rightarrow> string) \<Rightarrow> (string list \<Rightarrow> bool)
    \<Rightarrow> peer_socket \<Rightarrow> string \<Rightarrow> string \<Rightarrow> error option \<times> peer_socket" where
  "handle_json_rpc loads dumps wr s data peer_type =
     (case rpc_try loads dumps wr s data peer_type of
        (None, s1) \<Rightarrow> (None, s1)
      | (Some e, s1) \<Rightarrow> sendall wr (dumps error_response @ [newline]) s1)"

subsection \<open>The receive loop\<close>

text \<open>
  \<open>bytes.decode('utf-8')\<close> accepts exactly the well-formed UTF-8 byte sequences
  (no overlong forms, no surrogates, nothing above U+10FFFF) and raises on the others.
\<close>

definition cont_byte :: "char \<Rightarrow> bool" where
  "cont_byte c \<longleftrightarrow> 0x80 \<le> (of_char c :: nat) \<and> (of_char c :: nat) \<le> 0xBF"

definition byte_in :: "nat \<Rightarrow> nat \<Rightarrow> char \<Rightarrow> bool" where
  "byte_in lo hi c \<longleftrightarrow> lo \<le> (of_char c :: nat) \<and> (of_char c :: nat) \<le> hi"

fun utf8_valid :: "string \<Rightarrow> bool" where
  "utf8_valid [] = True"
| "utf8_valid (c # cs) =
     (let b = (of_char c :: nat) in
      if b < 0x80 then utf8_valid cs
      else if 0xC2 \<le> b \<and> b \<le> 0xDF then
        (case cs of
           c1 # r \<Rightarrow> cont_byte c1 \<and> utf8_valid r
         | _ \<Rightarrow> False)
      else if 0xE0 \<le> b \<and> b \<le> 0xEF then
        (case cs of
           c1 # c2 # r \<Rightarrow>
             byte_in (if b = 0xE0 then 0xA0 else 0x80) (if b = 0xED then 0x9F else 0xBF) c1 \<and>
             cont_byte c2 \<and> utf8_valid r
         | _ \<Rightarrow> False)
      else if 0xF0 \<le> b \<and> b \<le> 0xF4 then
        (case cs of
           c1 # c2 # c3 # r \<Rightarrow>
             byte_in (if b = 0xF0 then 0x90 else 0x80) (if b = 0xF4 then 0x8F else 0xBF) c1 \<and>
             cont_byte c2 \<and> cont_byte c3 \<and> utf8_valid r
         | _ \<Rightarrow> False)
      else False)"

definition decode_utf8 :: "string \<Rightarrow> string option" where
  "decode_utf8 bytes = (if utf8_valid bytes then Some bytes else None)"

text \<open>
  The state of one \<open>handle_peer_connection\<close> call: the \<open>buffer\<close>, the socket, and
  the lines passed to \<open>handle_json_rpc\<close> so far (\<open>handled\<close>, kept for the statements below;
  the code does not store it).
\<close>

record connection =
  buffer :: string
  sock :: peer_socket
  handled :: "string list"

definition new_connection :: "peer_socket \<Rightarrow> connection" where
  "new_connection s = \<lparr>buffer = [], sock = s, handled = []\<rparr>"

text \<open>
  The inner loop \<open>while '\n' in buffer\<close>: split at the first newline, handle the line,
  go on with the rest. An exception leaving \<open>handle_json_rpc\<close> leaves the loop.
\<close>

function drain :: "(string \<Rightarrow> json option) \<Rightarrow> (json \<Rightarrow> string) \<Rightarrow> (string list \<Rightarrow> bool) \<Rightarrow> string
    \<Rightarrow> connection \<Rightarrow> error option \<times> connection" where
  "drain loads dumps wr peer_type st =
     (if newline \<in> set (buffer st) then
        (let message = takeWhile (\<lambda>c. c \<noteq> newline) (buffer st);
             rest = tl (dropWhile (\<lambda>c. c \<noteq> newline) (buffer st))
         in case handle_json_rpc loads dumps wr (sock st) message peer_type of
              (Some e, s1) \<Rightarrow>
                (Some e, st\<lparr>buffer := rest, sock := s1, handled := handled st @ [message]\<rparr>)
            | (None, s1) \<Rightarrow>
                drain loads dumps wr peer_type
                  (st\<lparr>buffer := rest, sock := s1, handled := handled st @ [message]\<rparr>))
      else (None, st))"
  by pat_completeness auto
termination
proof (relation "measure (\<lambda>(loads, dumps, wr, peer_type, st). length (buffer st))")
  show "wf (measure (\<lambda>(loads, dumps, wr, peer_type, st). length (buffer st)))"
    by simp
next
  fix loads :: "string \<Rightarrow> json option" and dumps :: "json \<Rightarrow> string"
    and wr :: "string list \<Rightarrow> bool" and peer_type :: string and st :: connection
    and message rest :: string and s1 :: peer_socket
  assume nl: "newline \<in> set (buffer st)"
    and rest: "rest = tl (dropWhile (\<lambda>c. c \<noteq> newline) (buffer st))"
  from nl have "dropWhile (\<lambda>c. c \<noteq> newline) (buffer st) \<noteq> []"
    by simp
  then have "length rest < length (dropWhile (\<lambda>c. c \<noteq> newline) (buffer st))"
    unfolding rest by (cases "dropWhile (\<lambda>c. c \<noteq> newline) (buffer st)") simp_all
  also have "\<dots> \<le> length (buffer st)"
    by (rule length_dropWhile_le)
  finally show "((loads, dumps, wr, peer_type,
        st\<lparr>buffer := rest, sock := s1, handled := handled st @ [message]\<rparr>),
       (loads, dumps, wr, peer_type, st))
      \<in> measure (\<lambda>(loads, dumps, wr, peer_type, st). length (buffer st))"
    by simp
qed

text \<open>
  The outer loop, over the successive outcomes of \<open>recv(1024)\<close>. A socket error, bytes that
  do not decode, an empty read (the peer has closed) and an exception from the inner loop
  all leave the loop (\<open>Closed\<close>); when the outcomes given are used up the loop is still
  running, blocked in \<open>recv\<close> (\<open>Waiting\<close>).
\<close>

datatype status = Waiting | Closed

fun handle_peer_connection :: "(string \<Rightarrow> json option) \<Rightarrow> (json \<Rightarrow> string) \<Rightarrow> (string list \<Rightarrow> bool)
    \<Rightarrow> string \<Rightarrow> recv_result list \<Rightarrow> connection \<Rightarrow> status \<times> connection" where
  "handle_peer_connection loads dumps wr peer_type [] st = (Waiting, st)"
| "handle_peer_connection loads dumps wr peer_type (RecvError # rs) st = (Closed, st)"
| "handle_peer_connection loads dumps wr peer_type (RecvData bytes # rs) st =
     (case decode_utf8 bytes of
        None \<Rightarrow> (Closed, st)
      | Some data \<Rightarrow>
          if data \<noteq> [] then
            (case drain loads dumps wr peer_type (st\<lparr>buffer := buffer st @ data\<rparr>) of
               (Some e, st1) \<Rightarrow> (Closed, st1)
             | (None, st1) \<Rightarrow> handle_peer_connection loads dumps wr peer_type rs st1)
          else (Closed, st))"

text \<open>The complete lines of a text, and what follows the last newline.\<close>

fun complete_lines :: "string \<Rightarrow> string list" where
  "complete_lines [] = []"
| "complete_lines (c # cs) =
     (if c = newline then [] # complete_lines cs
      else (case complete_lines cs of
              [] \<Rightarrow> []
            | l # ls \<Rightarrow> (c # l) # ls))"

fun pending :: "string \<Rightarrow> string" where
  "pending [] = []"
| "pending (c # cs) =
     (if newline \<in> set cs then pending cs else if c = newline then cs else c # cs)"

declare drain.simps [simp del]

declare handle_peer_connection.simps [simp del]

text \<open>A socket on which every write succeeds, for the examples.\<close>

definition writable :: "string list \<Rightarrow> bool" where
  "writable h = True"

subsection \<open>The message shapes of the specification\<close>

text \<open>
  For comparison with the two tests of \<open>handle_json_rpc\<close>, the shapes as section 4.4 of
  the specification words them; the code does not use them. A request is an object with
  \<open>jsonrpc = "2.0"\<close>, a string \<open>method\<close>, \<open>params\<close> and an integer or string \<open>id\<close>. A
  response is an object with \<open>jsonrpc\<close>, \<open>id\<close> and either \<open>result\<close> or an \<open>error\<close> object
  with an integer \<open>code\<close> and a string \<open>message\<close>.
\<close>

fun is_string :: "json option \<Rightarrow> bool" where
  "is_string (Some (JStr x)) = True"
| "is_string _ = False"

fun is_integer :: "json option \<Rightarrow> bool" where
  "is_integer (Some (JInt i)) = True"
| "is_integer _ = False"

fun spec_error_object :: "json option \<Rightarrow> bool" where
  "spec_error_object (Some (JObj kvs)) \<longleftrightarrow>
     is_integer (map_of kvs ''code'') \<and> is_string (map_of kvs ''message'')"
| "spec_error_object _ = False"

fun spec_request_shape :: "json \<Rightarrow> bool" where
  "spec_request_shape (JObj kvs) \<longleftrightarrow>
     map_of kvs ''jsonrpc'' = Some (JStr ''2.0'') \<and>
     is_string (map_of kvs ''method'') \<and>
     ''params'' \<in> fst ` set kvs \<and>
     (is_integer (map_of kvs ''id'') \<or> is_string (map_of kvs ''id''))"
| "spec_request_shape _ = False"

fun spec_response_shape :: "json \<Rightarrow> bool" where
  "spec_response_shape (JObj kvs) \<longleftrightarrow>
     ''jsonrpc'' \<in> fst ` set kvs \<and> ''id'' \<in> fst ` set kvs \<and>
     (''result'' \<in> fst ` set kvs \<or> spec_error_object (map_of kvs ''error''))"
| "spec_response_shape _ = False"

section \<open>A concrete codec for the examples\<close>

text \<open>
  The statements below hold for every \<open>loads\<close> and \<open>dumps\<close>. To evaluate them on
  concrete messages, \<open>json_dumps\<close> and \<open>json_loads\<close> write and read JSON text the way
  the \<open>json\<close> module does with its default settings (\<open>', '\<close> and \<open>': '\<close> as
  separators, output in ASCII), on the values of type \<open>json\<close> whose strings are ASCII.
  The reader does not accept escape sequences inside strings nor numbers with a fraction or
  an exponent, which the module would accept.
\<close>

definition digit_char :: "nat \<Rightarrow> char" where
  "digit_char n = ''0123456789abcdef'' ! n"

fun show_nat :: "nat \<Rightarrow> string" where
  "show_nat n = (if n < 10 then [digit_char n] else show_nat (n div 10) @ [digit_char (n mod 10)])"

declare show_nat.simps [simp del]

definition show_int :: "int \<Rightarrow> string" where
  "show_int i = (if i < 0 then CHR ''-'' # show_nat (nat (- i)) else show_nat (nat i))"

definition escape_char :: "char \<Rightarrow> string" where
  "escape_char c =
     (let n = (of_char c :: nat) in
      if c = CHR 0x22 then [CHR 0x5C, CHR 0x22]
      else if c = CHR 0x5C then [CHR 0x5C, CHR 0x5C]
      else if c = CHR 0x0A then [CHR 0x5C, CHR ''n'']
      else if c = CHR 0x0D then [CHR 0x5C, CHR ''r'']
      else if c = CHR 0x09 then [CHR 0x5C, CHR ''t'']
      else if c = CHR 0x08 then [CHR 0x5C, CHR ''b'']
      else if c = CHR 0x0C then [CHR 0x5C, CHR ''f'']
      else if 0x20 \<le> n \<and> n \<le> 0x7E then [c]
      else [CHR 0x5C, CHR ''u'', CHR ''0'', CHR ''0'', digit_char (n div 16), digit_char (n mod 16)])"

definition show_string :: "string \<Rightarrow> string" where
  "show_string s = CHR 0x22 # concat (map escape_char s) @ [CHR 0x22]"

fun join :: "string \<Rightarrow> string list \<Rightarrow> string" where
  "join sep [] = []"
| "join sep [x] = x"
| "join sep (x # y # ys) = x @ sep @ join sep (y # ys)"

fun json_dumps :: "json \<Rightarrow> string" where
  "json_dumps JNull = ''null''"
| "json_dumps (JBool b) = (if b then ''true'' else ''false'')"
| "json_dumps (JInt i) = show_int i"
| "json_dumps (JStr s) = show_string s"
| "json_dumps (JArr xs) = ''['' @ join '', '' (map json_dumps xs) @ '']''"
| "json_dumps (JObj kvs) =
     ''{'' @ join '', '' (map (\<lambda>(k, v). show_string k @ '': '' @ json_dumps v) kvs) @ ''}''"

definition is_ws :: "char \<Rightarrow> bool" where
  "is_ws c \<longleftrightarrow> c = CHR '' '' \<or> c = CHR 0x09 \<or> c = CHR 0x0A \<or> c = CHR 0x0D"

definition skip_ws :: "string \<Rightarrow> string" where
  "skip_ws s = dropWhile is_ws s"

definition is_digit :: "char \<Rightarrow> bool" where
  "is_digit c \<longleftrightarrow> 0x30 \<le> (of_char c :: nat) \<and> (of_char c :: nat) \<le> 0x39"

definition digit_val :: "char \<Rightarrow> nat" where
  "digit_val c = of_char c - 0x30"

text \<open>
  A number: an optional minus sign, then \<open>0\<close> or a digit sequence without leading zero.
  A fraction or an exponent after it would make a floating-point number, which is refused.
\<close>

definition parse_nat :: "string \<Rightarrow> (nat \<times> string) option" where
  "parse_nat s =
     (let ds = takeWhile is_digit s; rest = dropWhile is_digit s
      in if ds = [] then None
         else if hd ds = CHR ''0'' \<and> length ds > 1 then None
         else if rest \<noteq> [] \<and> hd rest \<in> {CHR ''.'', CHR ''e'', CHR ''E''} then None
         else Some (foldl (\<lambda>a c. 10 * a + digit_val c) 0 ds, rest))"

definition parse_int :: "string \<Rightarrow> (int \<times> string) option" where
  "parse_int s =
     (case s of
        [] \<Rightarrow> None
      | c # cs \<Rightarrow>
          if c = CHR ''-'' then map_option (\<lambda>(n, r). (- int n, r)) (parse_nat cs)
          else map_option (\<lambda>(n, r). (int n, r)) (parse_nat s))"

text \<open>
  The body of a string, after the opening quote: everything up to the next quote. A control
  character is an error, as in the module; a backslash starts an escape sequence, which
  this reader refuses.
\<close>

definition parse_string_body :: "string \<Rightarrow> (string \<times> string) option" where
  "parse_string_body s =
     (let body = takeWhile (\<lambda>c. c \<noteq> CHR 0x22) s; rest = dropWhile (\<lambda>c. c \<noteq> CHR 0x22) s
      in if rest = [] then None
         else if \<exists>c \<in> set body. c = CHR 0x5C \<or> (of_char c :: nat) < 0x20 then None
         else Some (body, tl rest))"

text \<open>
  The recursive descent over values, array elements and object members. The first argument
  bounds the depth of recursion; \<open>json_loads\<close> starts it with the length of the input.
\<close>

fun parse_value :: "nat \<Rightarrow> string \<Rightarrow> (json \<times> string) option"
  and parse_elems :: "nat \<Rightarrow> json list \<Rightarrow> string \<Rightarrow> (json \<times> string) option"
  and parse_members :: "nat \<Rightarrow> (string \<times> json) list \<Rightarrow> string \<Rightarrow> (json \<times> string) option" where
  "parse_value 0 s = None"
| "parse_value (Suc n) s =
     (case s of
        [] \<Rightarrow> None
      | c # cs \<Rightarrow>
          if c = CHR 0x22 then map_option (\<lambda>(b, r). (JStr b, r)) (parse_string_body cs)
          else if c = CHR ''['' then
            (case skip_ws cs of
               [] \<Rightarrow> None
             | d # ds \<Rightarrow> if d = CHR '']'' then Some (JArr [], ds) else parse_elems n [] (d # ds))
          else if c = CHR ''{'' then
            (case skip_ws cs of
               [] \<Rightarrow> None
             | d # ds \<Rightarrow> if d = CHR ''}'' then Some (JObj [], ds) else parse_members n [] (d # ds))
          else if take 4 s = ''null'' then Some (JNull, drop 4 s)
          else if take 4 s = ''true'' then Some (JBool True, drop 4 s)
          else if take 5 s = ''false'' then Some (JBool False, drop 5 s)
          else map_option (\<lambda>(i, r). (JInt i, r)) (parse_int s))"
| "parse_elems 0 acc s = None"
| "parse_elems (Suc n) acc s =
     (case parse_value n s of
        None \<Rightarrow> None
      | Some (v, r) \<Rightarrow>
          (case skip_ws r of
             [] \<Rightarrow> None
           | d # ds \<Rightarrow>
               if d = CHR '']'' then Some (JArr (acc @ [v]), ds)
               else if d = CHR '','' then parse_elems n (acc @ [v]) (skip_ws ds)
               else None))"
| "parse_members 0 acc s = None"
| "parse_members (Suc n) acc s =
     (case s of
        [] \<Rightarrow> None
      | q # qs \<Rightarrow>
          if q \<noteq> CHR 0x22 then None
          else (case parse_string_body qs of
                  None \<Rightarrow> None
                | Some (k, r) \<Rightarrow>
                    (case skip_ws r of
                       [] \<Rightarrow> None
                     | colon # r1 \<Rightarrow>
                         if colon \<noteq> CHR '':'' then None
                         else (case parse_value n (skip_ws r1) of
                                 None \<Rightarrow> None
                               | Some (v, r2) \<Rightarrow>
                                   (case skip_ws r2 of
                                      [] \<Rightarrow> None
                                    | d # ds \<Rightarrow>
                                        if d = CHR ''}'' then Some (JObj (AList.update k v acc), ds)
                                        else if d = CHR '','' then
                                          parse_members n (AList.update k v acc) (skip_ws ds)
                                        else None)))))"

definition json_loads :: "string \<Rightarrow> json option" where
  "json_loads s =
     (case parse_value (Suc (length s)) (skip_ws s) of
        None \<Rightarrow> None
      | Some (v, r) \<Rightarrow> if skip_ws r = [] then Some v else None)"

section \<open>Facts about the manager\<close>

lemma snd_set_update:
  "snd ` set (AList.update k v al) \<subseteq> insert v (snd ` set al)"
  by (induction al) auto

lemma distinct_snd_update:
  "distinct (map snd al) \<Longrightarrow> v \<notin> snd ` set al \<Longrightarrow> distinct (map snd (AList.update k v al))"
proof (induction al)
  case Nil
  then show ?case by simp
next
  case (Cons p al)
  have "snd ` set (AList.update k v al) \<subseteq> insert v (snd ` set al)"
    by (rule snd_set_update)
  with Cons show ?case by (cases p) auto
qed

lemma distinct_snd_delete:
  "distinct (map snd al) \<Longrightarrow> distinct (map snd (AList.delete k al))"
  by (simp add: AList.delete_eq distinct_map_filter)

lemma snd_set_delete: "snd ` set (AList.delete k al) \<subseteq> snd ` set al"
  by (auto simp: AList.delete_eq)

lemma mgr_inv_init: "mgr_inv init_manager"
  by (simp add: mgr_inv_def init_manager_def)

lemma mgr_inv_add_peer:
  assumes "mgr_inv m" "(h, p) \<notin> set (peers m)" "(h, p) \<notin> snd ` set (active_clients m)"
  shows "mgr_inv (add_peer h p m)"
  using assms by (auto simp: mgr_inv_def add_peer_def)

lemma mgr_inv_get_new_peer:
  assumes "mgr_inv m"
  shows "mgr_inv (snd (get_new_peer c m))"
proof (cases "peers m")
  case Nil
  with assms show ?thesis by (simp add: get_new_peer_def)
next
  case (Cons a rest)
  from assms Cons have d: "distinct rest" "a \<notin> set rest"
    and k: "distinct (map fst (active_clients m))"
    and v: "distinct (map snd (active_clients m))"
    and a: "a \<notin> snd ` set (active_clients m)"
    and r: "set rest \<inter> snd ` set (active_clients m) = {}"
    by (auto simp: mgr_inv_def)
  have s: "snd ` set (AList.update c a (active_clients m)) \<subseteq> insert a (snd ` set (active_clients m))"
    by (rule snd_set_update)
  have "set rest \<inter> snd ` set (AList.update c a (active_clients m)) = {}"
    using s r d(2) by blast
  with d k v a Cons show ?thesis
    by (simp add: get_new_peer_def mgr_inv_def distinct_update distinct_snd_update)
qed

lemma mgr_inv_handle_client_failure:
  assumes "mgr_inv m"
  shows "mgr_inv (handle_client_failure c m)"
proof -
  have "set (peers m) \<inter> snd ` set (AList.delete c (active_clients m)) = {}"
    using assms snd_set_delete [of c "active_clients m"] by (auto simp: mgr_inv_def)
  with assms show ?thesis
    by (simp add: handle_client_failure_def mgr_inv_def distinct_delete distinct_snd_delete)
qed

lemma mgr_inv_remove_peer:
  assumes "mgr_inv m"
  shows "mgr_inv (remove_peer h p m)"
  using assms by (auto simp: remove_peer_def mgr_inv_def Let_def dest: notin_set_remove1)

lemma mgr_inv_run_ops:
  "mgr_inv m \<Longrightarrow> fresh_adds m ops \<Longrightarrow> mgr_inv (run_ops ops m)"
proof (induction ops arbitrary: m)
  case Nil
  then show ?case by simp
next
  case (Cons x xs)
  have "mgr_inv (apply_op x m)"
  proof (cases x)
    case (AddPeer h p)
    with Cons.prems show ?thesis by (simp add: mgr_inv_add_peer)
  next
    case (GetNewPeer c)
    with Cons.prems show ?thesis by (simp add: mgr_inv_get_new_peer)
  next
    case (RemovePeer h p)
    with Cons.prems show ?thesis by (simp add: mgr_inv_remove_peer)
  next
    case (HandleClientFailure c)
    with Cons.prems show ?thesis by (simp add: mgr_inv_handle_client_failure)
  qed
  moreover from Cons.prems have "fresh_adds (apply_op x m) xs" by simp
  ultimately show ?case using Cons.IH by simp
qed

lemma mgr_inv_exclusive:
  assumes "mgr_inv m"
    and "map_of (active_clients m) c1 = Some a" "map_of (active_clients m) c2 = Some a"
  shows "c1 = c2"
proof -
  from assms(2,3) have "(c1, a) \<in> set (active_clients m)" "(c2, a) \<in> set (active_clients m)"
    by (auto dest: map_of_SomeD)
  moreover from assms(1) have "inj_on snd (set (active_clients m))"
    by (simp add: mgr_inv_def distinct_map)
  ultimately have "(c1, a) = (c2, a)"
    unfolding inj_on_def by fastforce
  then show ?thesis by simp
qed

section \<open>Claims about the pool manager\<close>

text \<open>
  C2, as stated: in every state reachable by \<open>add_peer\<close>, \<open>get_new_peer\<close>, \<open>remove_peer\<close>
  and \<open>handle_client_failure\<close>, no two distinct clients are mapped to the same address.
  This fails: \<open>add_peer\<close> stores the same address twice, and the two copies are then
  handed to two different clients.
\<close>

theorem exclusive_allocation_counterexample:
  "map_of (active_clients (run_ops
      [AddPeer ''A'' 1, AddPeer ''A'' 1, GetNewPeer 1, GetNewPeer 2] init_manager)) 1
     = Some (''A'', 1) \<and>
   map_of (active_clients (run_ops
      [AddPeer ''A'' 1, AddPeer ''A'' 1, GetNewPeer 1, GetNewPeer 2] init_manager)) 2
     = Some (''A'', 1)"
  by (simp add: init_manager_def add_peer_def get_new_peer_def)

text \<open>
  C2, amended: in every state reached from the empty manager by a sequence of the four
  operations in which \<open>add_peer\<close> is only called with an address that is at that moment
  neither in the pool nor assigned to a client, two distinct clients are never mapped to
  the same address.
\<close>

theorem exclusive_allocation_fresh_adds:
  assumes "fresh_adds init_manager ops"
    and "c1 \<noteq> c2"
    and "map_of (active_clients (run_ops ops init_manager)) c1 = Some a"
  shows "map_of (active_clients (run_ops ops init_manager)) c2 \<noteq> Some a"
proof
  assume "map_of (active_clients (run_ops ops init_manager)) c2 = Some a"
  moreover have "mgr_inv (run_ops ops init_manager)"
    using mgr_inv_init assms(1) by (rule mgr_inv_run_ops)
  ultimately have "c1 = c2"
    using assms(3) by (blast intro: mgr_inv_exclusive)
  with assms(2) show False by simp
qed

theorem exclusive_allocation_fresh_adds_witness:
  "fresh_adds init_manager
     [AddPeer ''A'' 1, AddPeer ''B'' 2, GetNewPeer 1, GetNewPeer 2, HandleClientFailure 1,
      AddPeer ''A'' 1, RemovePeer ''B'' 2, GetNewPeer 3] \<and>
   map_of (active_clients (run_ops
     [AddPeer ''A'' 1, AddPeer ''B'' 2, GetNewPeer 1, GetNewPeer 2, HandleClientFailure 1,
      AddPeer ''A'' 1, RemovePeer ''B'' 2, GetNewPeer 3] init_manager)) 3 = Some (''A'', 1) \<and>
   map_of (active_clients (run_ops
     [AddPeer ''A'' 1, AddPeer ''B'' 2, GetNewPeer 1, GetNewPeer 2, HandleClientFailure 1,
      AddPeer ''A'' 1, RemovePeer ''B'' 2, GetNewPeer 3] init_manager)) 2 \<noteq> Some (''A'', 1)"
proof -
  let ?ops = "[AddPeer ''A'' 1, AddPeer ''B'' 2, GetNewPeer 1, GetNewPeer 2, HandleClientFailure 1,
      AddPeer ''A'' 1, RemovePeer ''B'' 2, GetNewPeer 3]"
  have f: "fresh_adds init_manager ?ops"
    by (simp add: init_manager_def add_peer_def get_new_peer_def handle_client_failure_def
        remove_peer_def AList.delete_eq)
  have a: "map_of (active_clients (run_ops ?ops init_manager)) 3 = Some (''A'', 1)"
    by (simp add: init_manager_def add_peer_def get_new_peer_def handle_client_failure_def
        remove_peer_def AList.delete_eq)
  have n: "(3::int) \<noteq> 2" by simp
  from f a exclusive_allocation_fresh_adds [OF f n a] show ?thesis by simp
qed

text \<open>
  C3, as stated: \<open>add_peer\<close> appends an address only if it is not already in the pool,
  and a call with an address already there leaves the pool unchanged. This fails:
  the second of two identical calls appends a second copy.
\<close>

theorem add_peer_dedup_counterexample:
  "peers (add_peer ''A'' 1 (add_peer ''A'' 1 init_manager)) = [(''A'', 1), (''A'', 1)]"
  by (simp add: init_manager_def add_peer_def)

text \<open>
  C3, amended: \<open>add_peer\<close> appends the address to the tail of the pool unconditionally,
  also when it is already present, and leaves the assignment table alone; the pool is free of
  duplicates after the call exactly when it was before and the address was not in it.
\<close>

theorem add_peer_appends:
  "peers (add_peer h p m) = peers m @ [(h, p)] \<and>
   active_clients (add_peer h p m) = active_clients m \<and>
   (distinct (peers (add_peer h p m)) \<longleftrightarrow> distinct (peers m) \<and> (h, p) \<notin> set (peers m))"
  by (auto simp: add_peer_def)

theorem add_peer_appends_witness:
  "peers (add_peer ''B'' 2 (add_peer ''A'' 1 init_manager)) = [(''A'', 1), (''B'', 2)] \<and>
   distinct (peers (add_peer ''B'' 2 (add_peer ''A'' 1 init_manager)))"
proof -
  have "peers (add_peer ''A'' 1 init_manager) = [(''A'', 1)]"
    using add_peer_appends [of "''A''" 1 init_manager] by (simp add: init_manager_def)
  then show ?thesis
    using add_peer_appends [of "''B''" 2 "add_peer ''A'' 1 init_manager"] by simp
qed

text \<open>
  C4: with a non-empty pool \<open>get_new_peer\<close> returns the head of the pool, leaves the rest of
  the pool in order, and maps the client to the head in the table, changing no other
  client's entry; with an empty pool it returns \<open>None\<close> and changes nothing.
\<close>

theorem get_new_peer_pops_head:
  "(peers m = a # rest \<longrightarrow>
      fst (get_new_peer c m) = Some a \<and>
      peers (snd (get_new_peer c m)) = rest \<and>
      map_of (active_clients (snd (get_new_peer c m))) = (map_of (active_clients m))(c \<mapsto> a)) \<and>
   (peers m = [] \<longrightarrow> get_new_peer c m = (None, m))"
  by (simp add: get_new_peer_def update_conv')

theorem get_new_peer_pops_head_witness:
  "fst (get_new_peer 1 \<lparr>peers = [(''A'', 1), (''B'', 2)], active_clients = []\<rparr>) = Some (''A'', 1) \<and>
   peers (snd (get_new_peer 1 \<lparr>peers = [(''A'', 1), (''B'', 2)], active_clients = []\<rparr>))
     = [(''B'', 2)] \<and>
   map_of (active_clients (snd (get_new_peer 1
     \<lparr>peers = [(''A'', 1), (''B'', 2)], active_clients = []\<rparr>))) 1 = Some (''A'', 1) \<and>
   get_new_peer 1 \<lparr>peers = [], active_clients = [(1, (''A'', 1))]\<rparr>
     = (None, \<lparr>peers = [], active_clients = [(1, (''A'', 1))]\<rparr>)"
  using get_new_peer_pops_head
    [of "\<lparr>peers = [(''A'', 1), (''B'', 2)], active_clients = []\<rparr>" "(''A'', 1)" "[(''B'', 2)]" 1]
    get_new_peer_pops_head
    [of "\<lparr>peers = [], active_clients = [(1, (''A'', 1))]\<rparr>" "(''A'', 1)" "[]" 1]
  by simp

text \<open>
  C10, as stated: when a client that holds an address gets a new one, its old address is
  afterwards absent from the pool and from the table, unless it was in the pool before.
  This fails when another client holds the same address, which the manager allows:
  below, clients 1 and 2 both hold \<open>(A, 1)\<close>, the pool is \<open>[(B, 2)]\<close>, and after client 1
  is given \<open>(B, 2)\<close> the address \<open>(A, 1)\<close> is still in the table, under client 2.
\<close>

theorem overwrite_drops_old_counterexample:
  "map_of (active_clients (run_ops
      [AddPeer ''A'' 1, AddPeer ''A'' 1, AddPeer ''B'' 2, GetNewPeer 1, GetNewPeer 2]
      init_manager)) 1 = Some (''A'', 1) \<and>
   peers (run_ops
      [AddPeer ''A'' 1, AddPeer ''A'' 1, AddPeer ''B'' 2, GetNewPeer 1, GetNewPeer 2]
      init_manager) = [(''B'', 2)] \<and>
   map_of (active_clients (snd (get_new_peer 1 (run_ops
      [AddPeer ''A'' 1, AddPeer ''A'' 1, AddPeer ''B'' 2, GetNewPeer 1, GetNewPeer 2]
      init_manager)))) 2 = Some (''A'', 1)"
  by (simp add: init_manager_def add_peer_def get_new_peer_def)

text \<open>
  C10, amended: when \<open>get_new_peer\<close> is called for a client that holds an address and the
  pool is not empty, the client's entry is overwritten with the head of the pool and the old
  address is not put back: after the call the old address is absent from the pool and from
  the table, unless it was in the pool before or another client holds it too.
\<close>

theorem overwrite_drops_old:
  assumes "map_of (active_clients m) c = Some old"
    and "peers m \<noteq> []"
    and "old \<notin> set (peers m)"
    and "\<forall>c'. c' \<noteq> c \<longrightarrow> map_of (active_clients m) c' \<noteq> Some old"
  shows "map_of (active_clients (snd (get_new_peer c m))) c = Some (hd (peers m)) \<and>
         peers (snd (get_new_peer c m)) = tl (peers m) \<and>
         old \<notin> set (peers (snd (get_new_peer c m))) \<and>
         old \<notin> ran (map_of (active_clients (snd (get_new_peer c m))))"
proof -
  from assms(2) obtain a rest where p: "peers m = a # rest"
    by (cases "peers m") auto
  with assms(3) have ne: "a \<noteq> old" and nr: "old \<notin> set rest" by auto
  have t: "map_of (active_clients (snd (get_new_peer c m))) = (map_of (active_clients m))(c \<mapsto> a)"
    using p by (simp add: get_new_peer_def update_conv')
  have "old \<notin> ran ((map_of (active_clients m))(c \<mapsto> a))"
  proof
    assume "old \<in> ran ((map_of (active_clients m))(c \<mapsto> a))"
    then obtain k where k: "((map_of (active_clients m))(c \<mapsto> a)) k = Some old"
      by (auto simp: ran_def)
    show False
    proof (cases "k = c")
      case True
      with k ne show False by simp
    next
      case False
      with k assms(4) show False by simp
    qed
  qed
  with t p nr show ?thesis by (simp add: get_new_peer_def)
qed

theorem overwrite_drops_old_witness:
  "map_of (active_clients \<lparr>peers = [(''B'', 2)], active_clients = [(1, (''A'', 1))]\<rparr>) 1
     = Some (''A'', 1) \<and>
   map_of (active_clients (snd (get_new_peer 1
     \<lparr>peers = [(''B'', 2)], active_clients = [(1, (''A'', 1))]\<rparr>))) 1 = Some (''B'', 2) \<and>
   (''A'', 1) \<notin> set (peers (snd (get_new_peer 1
     \<lparr>peers = [(''B'', 2)], active_clients = [(1, (''A'', 1))]\<rparr>))) \<and>
   (''A'', 1) \<notin> ran (map_of (active_clients (snd (get_new_peer 1
     \<lparr>peers = [(''B'', 2)], active_clients = [(1, (''A'', 1))]\<rparr>))))"
proof -
  let ?m = "\<lparr>peers = [(''B'', 2)], active_clients = [(1::int, (''A'', 1::int))]\<rparr>"
  have 1: "map_of (active_clients ?m) 1 = Some (''A'', 1)" by simp
  have 2: "peers ?m \<noteq> []" by simp
  have 3: "(''A'', 1) \<notin> set (peers ?m)" by simp
  have 4: "\<forall>c'. c' \<noteq> 1 \<longrightarrow> map_of (active_clients ?m) c' \<noteq> Some (''A'', 1)" by simp
  from 1 overwrite_drops_old [OF 1 2 3 4] show ?thesis by simp
qed

section \<open>Facts about the client\<close>

text \<open>When the library lets a call through.\<close>

lemma settimeout_accepts:
  "settimeout lib t = None \<longleftrightarrow> timeout_check lib t = None \<and> 0 \<le> t"
  by (cases "timeout_check lib t") (simp_all add: settimeout_def)

lemma socket_connect_failed:
  "socket_connect lib h a = Failed \<longleftrightarrow> connect_result lib h a = Failed \<and> port_ok (snd a)"
  by (cases "connect_result lib h a") (simp_all add: socket_connect_def)

lemma socket_connect_raises:
  "raises (socket_connect lib h a) \<longleftrightarrow> raises (connect_result lib h a) \<or> \<not> port_ok (snd a)"
  by (cases "connect_result lib h a") (simp_all add: socket_connect_def)

lemma close_fields [simp]:
  "history (close c) = history c @ (if client_socket c then [EClose] else [])"
  "max_retries (close c) = max_retries c" "client_id (close c) = client_id c"
  "client_socket (close c) = client_socket c" "manager (close c) = manager c"
  "host_ip (close c) = host_ip c" "host_port (close c) = host_port c"
  "timeout (close c) = timeout c"
  "connected (close c) \<longleftrightarrow> connected c \<and> \<not> client_socket c"
  by (simp_all add: close_def)

lemma connect_fields [simp]:
  "max_retries (snd (connect lib c)) = max_retries c"
  "client_id (snd (connect lib c)) = client_id c"
  "client_socket (snd (connect lib c))"
  "manager (snd (connect lib c)) = manager c"
  "host_ip (snd (connect lib c)) = host_ip c"
  "host_port (snd (connect lib c)) = host_port c"
  "timeout (snd (connect lib c)) = timeout c"
  by (simp_all add: connect_def initialize_socket_def Let_def
      split: option.splits outcome.splits)

lemma connect_history:
  "history (snd (connect lib c)) =
     history c @ (if settimeout lib (timeout c) = None
                  then [EConnect (host_ip c, host_port c)] else [])"
  by (simp add: connect_def initialize_socket_def Let_def split: option.splits outcome.splits)

text \<open>A call of \<open>connect\<close> that the library does not leave by an exception.\<close>

lemma connect_returns:
  assumes "settimeout lib (timeout c) = None"
    and "\<not> raises (socket_connect lib (history c) (host_ip c, host_port c))"
  shows "fst (connect lib c) = None"
    and "connected (snd (connect lib c)) \<longleftrightarrow>
           socket_connect lib (history c) (host_ip c, host_port c) = Accepted"
  using assms
  by (cases "socket_connect lib (history c) (host_ip c, host_port c)";
      simp add: connect_def initialize_socket_def Let_def)+

lemma notify_manager_failure_fields [simp]:
  "history (notify_manager_failure c) =
     history c @ EHandleClientFailure (client_id c) # (if client_socket c then [EClose] else [])"
  "max_retries (notify_manager_failure c) = max_retries c"
  "client_id (notify_manager_failure c) = client_id c"
  "client_socket (notify_manager_failure c) = client_socket c"
  "manager (notify_manager_failure c) = handle_client_failure (client_id c) (manager c)"
  "connected (notify_manager_failure c) \<longleftrightarrow> connected c \<and> \<not> client_socket c"
  "host_ip (notify_manager_failure c) = host_ip c"
  "host_port (notify_manager_failure c) = host_port c"
  "timeout (notify_manager_failure c) = timeout c"
  by (simp_all add: notify_manager_failure_def close_def)

lemma handle_client_failure_fields [simp]:
  "peers (handle_client_failure cid m) = peers m"
  "cid \<notin> fst ` set (active_clients (handle_client_failure cid m))"
  by (auto simp: handle_client_failure_def AList.delete_eq)

lemma request_new_peer_fields [simp]:
  "max_retries (request_new_peer c) = max_retries c"
  "client_id (request_new_peer c) = client_id c"
  "client_socket (request_new_peer c) = client_socket c"
  "timeout (request_new_peer c) = timeout c"
  by (simp_all add: request_new_peer_def Let_def split: prod.splits option.splits)

lemma request_new_peer_history:
  "history (request_new_peer c) =
     history c @ EGetNewPeer (client_id c) #
       (if peers (manager c) = []
        then EHandleClientFailure (client_id c) # (if client_socket c then [EClose] else [])
        else [])"
  by (cases "peers (manager c)")
    (simp_all add: request_new_peer_def get_new_peer_def Let_def split: prod.splits)

lemma request_new_peer_connected:
  "\<not> connected c \<Longrightarrow> \<not> connected (request_new_peer c)"
  by (cases "peers (manager c)")
    (simp_all add: request_new_peer_def get_new_peer_def Let_def split: prod.splits)

text \<open>A request that the manager grants: the client turns to the head of the pool.\<close>

lemma request_new_peer_granted:
  assumes "peers (manager c) = p # ps"
  shows "host_ip (request_new_peer c) = fst p" "host_port (request_new_peer c) = snd p"
    "peers (manager (request_new_peer c)) = ps"
    "history (request_new_peer c) = history c @ [EGetNewPeer (client_id c)]"
  using assms
  by (simp_all add: request_new_peer_def get_new_peer_def Let_def split: prod.splits)

text \<open>A request never widens the set of addresses the client can still be given.\<close>

lemma request_new_peer_reach:
  "set ((host_ip (request_new_peer c), host_port (request_new_peer c))
          # peers (manager (request_new_peer c)))
     \<subseteq> set ((host_ip c, host_port c) # peers (manager c))"
  by (cases "peers (manager c)")
    (auto simp: request_new_peer_def get_new_peer_def Let_def split: prod.splits)

text \<open>The block under the lock: what it leaves, and when it returns.\<close>

lemma reconnect_attempt_fields [simp]:
  "max_retries (snd (reconnect_attempt lib c)) = max_retries c"
  "client_id (snd (reconnect_attempt lib c)) = client_id c"
  "client_socket (snd (reconnect_attempt lib c))"
  "manager (snd (reconnect_attempt lib c)) = manager c"
  "host_ip (snd (reconnect_attempt lib c)) = host_ip c"
  "host_port (snd (reconnect_attempt lib c)) = host_port c"
  "timeout (snd (reconnect_attempt lib c)) = timeout c"
  by (simp_all add: reconnect_attempt_def)

lemma reconnect_attempt_history:
  "history (snd (reconnect_attempt lib c)) =
     history c @ (if connected c \<and> client_socket c then [EClose] else []) @
       (if settimeout lib (timeout c) = None then [EConnect (host_ip c, host_port c)] else [])"
  by (simp add: reconnect_attempt_def connect_history)

lemma reconnect_attempt_returns:
  assumes "settimeout lib (timeout c) = None"
    and "\<forall>h. \<not> raises (socket_connect lib h (host_ip c, host_port c))"
  shows "fst (reconnect_attempt lib c) = None"
proof (cases "connected c")
  case True
  have "fst (connect lib (close c)) = None"
    using assms by (intro connect_returns) simp_all
  with True show ?thesis by (simp add: reconnect_attempt_def)
next
  case False
  have "fst (connect lib c) = None"
    using assms by (intro connect_returns) simp_all
  with False show ?thesis by (simp add: reconnect_attempt_def)
qed

lemma reconnect_attempt_failed:
  assumes "settimeout lib (timeout c) = None"
    and "\<forall>h. socket_connect lib h (host_ip c, host_port c) = Failed"
  shows "fst (reconnect_attempt lib c) = None" and "\<not> connected (snd (reconnect_attempt lib c))"
proof -
  from assms(2) have r: "\<forall>h. \<not> raises (socket_connect lib h (host_ip c, host_port c))"
    by simp
  from assms(1) r show "fst (reconnect_attempt lib c) = None"
    by (rule reconnect_attempt_returns)
  show "\<not> connected (snd (reconnect_attempt lib c))"
  proof (cases "connected c")
    case True
    have "connected (snd (connect lib (close c))) \<longleftrightarrow>
        socket_connect lib (history (close c)) (host_ip (close c), host_port (close c)) = Accepted"
      using assms r by (intro connect_returns) simp_all
    with True assms(2) show ?thesis by (simp add: reconnect_attempt_def)
  next
    case False
    have "connected (snd (connect lib c)) \<longleftrightarrow>
        socket_connect lib (history c) (host_ip c, host_port c) = Accepted"
      using assms r by (intro connect_returns) simp_all
    with False assms(2) show ?thesis by (simp add: reconnect_attempt_def)
  qed
qed

text \<open>The two ways through the loop.\<close>

lemma reconnect_loop_stop:
  "\<not> retries < max_retries c \<Longrightarrow>
     reconnect_loop lib retries c = (Inr False, notify_manager_failure c)"
  by (subst reconnect_loop.simps) simp

lemma reconnect_loop_step:
  "retries < max_retries c \<Longrightarrow>
     reconnect_loop lib retries c =
       (case reconnect_attempt lib c of
          (Some e, c1) \<Rightarrow> (Inl e, c1)
        | (None, c1) \<Rightarrow>
            if connected c1 then (Inr True, c1)
            else reconnect_loop lib (retries + 1) (request_new_peer c1))"
  by (subst reconnect_loop.simps) simp

text \<open>One pass through the loop body, when the attempt fails.\<close>

lemma reconnect_loop_failed_attempt:
  assumes "retries < max_retries c" and "settimeout lib (timeout c) = None"
    and "\<forall>h. socket_connect lib h (host_ip c, host_port c) = Failed"
  shows "reconnect_loop lib retries c =
    reconnect_loop lib (retries + 1) (request_new_peer (snd (reconnect_attempt lib c)))"
  using assms(1) reconnect_attempt_failed [OF assms(2,3)]
  by (cases "reconnect_attempt lib c") (simp add: reconnect_loop_step)

lemma reconnect_loop_history_grows:
  "\<exists>evs. history (snd (reconnect_loop lib retries c)) = history c @ evs"
proof (induction "nat (max_retries c - retries)" arbitrary: retries c)
  case 0
  then have "\<not> retries < max_retries c" by simp
  then show ?case by (simp add: reconnect_loop_stop)
next
  case (Suc k)
  then have lt: "retries < max_retries c" by simp
  obtain e c1 where x: "reconnect_attempt lib c = (e, c1)"
    by (cases "reconnect_attempt lib c")
  then have c1: "c1 = snd (reconnect_attempt lib c)" by simp
  have h1: "\<exists>evs. history c1 = history c @ evs"
    unfolding c1 reconnect_attempt_history by blast
  show ?case
  proof (cases "e = None \<and> \<not> connected c1")
    case False
    then consider er where "e = Some er" | "e = None" "connected c1"
      by (cases e) auto
    then show ?thesis
    proof cases
      case 1
      with lt x h1 show ?thesis by (simp add: reconnect_loop_step)
    next
      case 2
      with lt x h1 show ?thesis by (simp add: reconnect_loop_step)
    qed
  next
    case True
    with lt x have r: "reconnect_loop lib retries c =
        reconnect_loop lib (retries + 1) (request_new_peer c1)"
      by (simp add: reconnect_loop_step)
    have "k = nat (max_retries (request_new_peer c1) - (retries + 1))"
      using Suc(2) by (simp add: c1)
    from Suc(1) [OF this] obtain evs where
      "history (snd (reconnect_loop lib (retries + 1) (request_new_peer c1)))
         = history (request_new_peer c1) @ evs"
      by blast
    moreover from h1 obtain evs1 where "history c1 = history c @ evs1" by blast
    ultimately show ?thesis
      unfolding r by (simp add: request_new_peer_history)
  qed
qed


lemma reconnect_loop_connected:
  assumes "client_socket c \<or> \<not> connected c"
  shows "(client_socket (snd (reconnect_loop lib retries c))
            \<or> \<not> connected (snd (reconnect_loop lib retries c))) \<and>
         (\<forall>b. fst (reconnect_loop lib retries c) = Inr b \<longrightarrow>
            connected (snd (reconnect_loop lib retries c)) = b)"
  using assms
proof (induction "nat (max_retries c - retries)" arbitrary: retries c)
  case 0
  then have "\<not> retries < max_retries c" by simp
  with "0.prems" show ?case by (auto simp: reconnect_loop_stop)
next
  case (Suc k)
  then have lt: "retries < max_retries c" by simp
  obtain e c1 where x: "reconnect_attempt lib c = (e, c1)"
    by (cases "reconnect_attempt lib c")
  then have c1: "c1 = snd (reconnect_attempt lib c)" by simp
  have s: "client_socket c1" unfolding c1 by simp
  show ?case
  proof (cases "e = None \<and> \<not> connected c1")
    case False
    then consider er where "e = Some er" | "e = None" "connected c1"
      by (cases e) auto
    then show ?thesis
    proof cases
      case 1
      with lt x s show ?thesis by (simp add: reconnect_loop_step)
    next
      case 2
      with lt x s show ?thesis by (simp add: reconnect_loop_step)
    qed
  next
    case True
    with lt x have r: "reconnect_loop lib retries c =
        reconnect_loop lib (retries + 1) (request_new_peer c1)"
      by (simp add: reconnect_loop_step)
    have "k = nat (max_retries (request_new_peer c1) - (retries + 1))"
      using Suc(2) by (simp add: c1)
    moreover have "client_socket (request_new_peer c1) \<or> \<not> connected (request_new_peer c1)"
      using s by simp
    ultimately show ?thesis
      unfolding r by (rule Suc(1))
  qed
qed

text \<open>
  When neither the timeout nor any address the client can be given makes the library
  raise, the loop returns a boolean.
\<close>

lemma reconnect_loop_returns:
  assumes "settimeout lib (timeout c) = None"
    and "\<forall>h. \<forall>a \<in> set ((host_ip c, host_port c) # peers (manager c)).
           \<not> raises (socket_connect lib h a)"
  shows "\<exists>b. fst (reconnect_loop lib retries c) = Inr b"
  using assms
proof (induction "nat (max_retries c - retries)" arbitrary: retries c)
  case 0
  then have "\<not> retries < max_retries c" by simp
  then have "fst (reconnect_loop lib retries c) = Inr False"
    by (simp add: reconnect_loop_stop)
  then show ?case ..
next
  case (Suc k)
  then have lt: "retries < max_retries c" by simp
  obtain e c1 where x: "reconnect_attempt lib c = (e, c1)"
    by (cases "reconnect_attempt lib c")
  then have c1: "c1 = snd (reconnect_attempt lib c)" by simp
  have f: "timeout c1 = timeout c" "host_ip c1 = host_ip c" "host_port c1 = host_port c"
    "manager c1 = manager c"
    unfolding c1 by simp_all
  from Suc.prems(2) have "\<forall>h. \<not> raises (socket_connect lib h (host_ip c, host_port c))"
    by simp
  with Suc.prems(1) have "fst (reconnect_attempt lib c) = None"
    by (rule reconnect_attempt_returns)
  with x have e: "e = None" by simp
  show ?case
  proof (cases "connected c1")
    case True
    with lt x e have "fst (reconnect_loop lib retries c) = Inr True"
      by (simp add: reconnect_loop_step)
    then show ?thesis ..
  next
    case False
    with lt x e have r: "reconnect_loop lib retries c =
        reconnect_loop lib (retries + 1) (request_new_peer c1)"
      by (simp add: reconnect_loop_step)
    have k: "k = nat (max_retries (request_new_peer c1) - (retries + 1))"
      using Suc(2) by (simp add: c1)
    have t: "settimeout lib (timeout (request_new_peer c1)) = None"
      using Suc.prems(1) by (simp add: f)
    have "set ((host_ip (request_new_peer c1), host_port (request_new_peer c1))
              # peers (manager (request_new_peer c1)))
        \<subseteq> set ((host_ip c, host_port c) # peers (manager c))"
      using request_new_peer_reach [of c1] unfolding f .
    with Suc.prems(2) have a: "\<forall>h. \<forall>a \<in> set ((host_ip (request_new_peer c1),
          host_port (request_new_peer c1)) # peers (manager (request_new_peer c1))).
        \<not> raises (socket_connect lib h a)"
      by blast
    from Suc(1) [OF k t a] show ?thesis
      unfolding r .
  qed
qed

text \<open>
  When every attempt fails and the pool holds a peer for every request, the loop is a
  sequence of rounds, an attempt followed by a request, and ends with the notification
  of failure.
\<close>

lemma reconnect_loop_all_fail:
  assumes "settimeout lib (timeout c) = None"
    and "\<forall>h. \<forall>a \<in> set ((host_ip c, host_port c) # peers (manager c)).
           socket_connect lib h a = Failed"
    and "nat (max_retries c - retries) \<le> length (peers (manager c))"
    and "\<not> connected c" and "client_socket c"
  shows "fst (reconnect_loop lib retries c) = Inr False \<and>
     history (snd (reconnect_loop lib retries c)) =
       history c @
       concat (map (\<lambda>a. [EConnect a, EGetNewPeer (client_id c)])
         (take (nat (max_retries c - retries)) ((host_ip c, host_port c) # peers (manager c))))
       @ [EHandleClientFailure (client_id c), EClose] \<and>
     peers (manager (snd (reconnect_loop lib retries c)))
       = drop (nat (max_retries c - retries)) (peers (manager c))"
  using assms
proof (induction "nat (max_retries c - retries)" arbitrary: retries c)
  case 0
  then have "\<not> retries < max_retries c" by simp
  with 0 show ?case by (simp add: reconnect_loop_stop)
next
  case (Suc k)
  then have lt: "retries < max_retries c" by simp
  let ?c1 = "snd (reconnect_attempt lib c)"
  let ?c2 = "request_new_peer ?c1"
  from Suc.prems(2) have tf: "\<forall>h. socket_connect lib h (host_ip c, host_port c) = Failed"
    by simp
  from lt Suc.prems(1) tf
  have r: "reconnect_loop lib retries c = reconnect_loop lib (retries + 1) ?c2"
    by (rule reconnect_loop_failed_attempt)
  from Suc(2) Suc.prems(3) obtain p ps where pool: "peers (manager c) = p # ps"
    by (cases "peers (manager c)") auto
  then have pool1: "peers (manager ?c1) = p # ps" by simp
  note g = request_new_peer_granted [OF pool1]
  have k: "k = nat (max_retries ?c2 - (retries + 1))"
    using Suc(2) by simp
  have t: "settimeout lib (timeout ?c2) = None"
    using Suc.prems(1) by simp
  have f: "(host_ip ?c2, host_port ?c2) = p" "peers (manager ?c2) = ps"
    "client_id ?c2 = client_id c"
    by (simp_all add: g)
  have a: "\<forall>h. \<forall>a \<in> set ((host_ip ?c2, host_port ?c2) # peers (manager ?c2)).
      socket_connect lib h a = Failed"
    unfolding f using Suc.prems(2) by (simp add: pool)
  have l: "nat (max_retries ?c2 - (retries + 1)) \<le> length (peers (manager ?c2))"
    unfolding f k [symmetric] using Suc(2) Suc.prems(3) by (simp add: pool)
  have n: "\<not> connected ?c2"
    using reconnect_attempt_failed(2) [OF Suc.prems(1) tf]
    by (rule request_new_peer_connected)
  have s: "client_socket ?c2" by simp
  have tk: "take (nat (max_retries c - retries)) ((host_ip c, host_port c) # p # ps)
      = (host_ip c, host_port c) # take k (p # ps)"
    using Suc(2) [symmetric] by simp
  have dr: "drop (nat (max_retries c - retries)) (p # ps) = drop k ps"
    using Suc(2) [symmetric] by simp
  have h2: "history ?c2 = history c @ [EConnect (host_ip c, host_port c), EGetNewPeer (client_id c)]"
    using Suc.prems(1,4) by (simp add: g reconnect_attempt_history)
  note ih = Suc(1) [OF k t a l n s]
  from ih [THEN conjunct1]
  have 1: "fst (reconnect_loop lib retries c) = Inr False"
    unfolding r .
  from ih [THEN conjunct2, THEN conjunct1]
  have 2: "history (snd (reconnect_loop lib retries c)) =
      history c @
      concat (map (\<lambda>a. [EConnect a, EGetNewPeer (client_id c)])
        (take (nat (max_retries c - retries)) ((host_ip c, host_port c) # peers (manager c))))
      @ [EHandleClientFailure (client_id c), EClose]"
    unfolding r pool tk f h2 k [symmetric] by simp
  from ih [THEN conjunct2, THEN conjunct2]
  have 3: "peers (manager (snd (reconnect_loop lib retries c)))
      = drop (nat (max_retries c - retries)) (peers (manager c))"
    unfolding r pool dr f k [symmetric] .
  from 1 2 3 show ?case by (intro conjI)
qed

text \<open>
  Called on a connected client, \<open>reconnect\<close> first closes the socket and then calls
  \<open>connect\<close> with the current address; without a retry to make it only notifies the
  manager and closes.
\<close>

lemma reconnect_connected_trace:
  assumes "connected c" and "client_socket c" and "settimeout lib (timeout c) = None"
  shows "\<exists>evs. history (snd (reconnect lib c)) =
     history c @
     (if 0 < max_retries c then EClose # EConnect (host_ip c, host_port c) # evs
      else [EHandleClientFailure (client_id c), EClose])"
proof (cases "0 < max_retries c")
  case False
  with assms(2) show ?thesis
    by (simp add: reconnect_def reconnect_loop_stop)
next
  case True
  obtain e c1 where x: "reconnect_attempt lib c = (e, c1)"
    by (cases "reconnect_attempt lib c")
  then have c1: "c1 = snd (reconnect_attempt lib c)" by simp
  have h1: "history c1 = history c @ [EClose, EConnect (host_ip c, host_port c)]"
    unfolding c1 using assms by (simp add: reconnect_attempt_history)
  have "\<exists>evs. history (snd (reconnect lib c)) =
      history c @ EClose # EConnect (host_ip c, host_port c) # evs"
  proof (cases "e = None \<and> \<not> connected c1")
    case False
    then consider er where "e = Some er" | "e = None" "connected c1"
      by (cases e) auto
    then show ?thesis
    proof cases
      case 1
      with True x h1 show ?thesis by (simp add: reconnect_def reconnect_loop_step)
    next
      case 2
      with True x h1 show ?thesis by (simp add: reconnect_def reconnect_loop_step)
    qed
  next
    case nc: True
    with True x have r: "reconnect lib c = reconnect_loop lib 1 (request_new_peer c1)"
      by (simp add: reconnect_def reconnect_loop_step)
    obtain evs where "history (snd (reconnect_loop lib 1 (request_new_peer c1)))
        = history (request_new_peer c1) @ evs"
      using reconnect_loop_history_grows by blast
    with h1 show ?thesis
      unfolding r by (simp add: request_new_peer_history)
  qed
  with True show ?thesis by simp
qed

section \<open>Claims about the client\<close>

text \<open>
  C1, as stated: with \<open>max_retries = N\<close> and a target that never accepts a connection,
  \<open>reconnect\<close> makes exactly \<open>N\<close> attempts against the target before it first asks the
  manager for a new peer. This fails for \<open>N = 2\<close>: the loop asks for a new peer after the
  first failed attempt.
\<close>

theorem retry_bound_counterexample:
  "max_retries (new_client init_manager ''A'' 1 10 2 7) = 2 \<and>
   attempts_before_request (''A'', 1)
     (events_since (new_client init_manager ''A'' 1 10 2 7)
        (snd (reconnect unreachable (new_client init_manager ''A'' 1 10 2 7)))) = 1"
  by code_simp

text \<open>
  C1, amended: with \<open>max_retries = N \<ge> 1\<close>, a timeout the library accepts and a target on
  which every call of \<open>connect\<close> fails (so its port is within \<open>0..65535\<close>), one call of
  \<open>reconnect\<close> makes exactly one attempt against the target and then asks the manager for
  a new peer. \<open>N\<close> bounds the attempts of the whole call: when the pool holds at least \<open>N\<close>
  peers, so that every request is granted, and the attempts on them fail as well, the call
  is exactly \<open>N\<close> rounds, each one attempt followed by one request, the first attempt on the
  target and each later one on the peer granted by the request before it; then the manager
  is notified, the socket is closed, \<open>False\<close> is returned, and \<open>N\<close> peers have left the
  pool. A client that is connected when \<open>reconnect\<close> is called closes its socket first.
\<close>

theorem reconnect_one_attempt_then_request:
  assumes "1 \<le> max_retries c"
    and "0 \<le> timeout c" and "timeout_check lib (timeout c) = None"
    and "port_ok (host_port c)"
    and "\<forall>h. connect_result lib h (host_ip c, host_port c) = Failed"
  shows "(\<exists>evs. events_since c (snd (reconnect lib c)) =
            (if connected c \<and> client_socket c then [EClose] else []) @
            EConnect (host_ip c, host_port c) # EGetNewPeer (client_id c) # evs) \<and>
         attempts_before_request (host_ip c, host_port c)
           (events_since c (snd (reconnect lib c))) = 1 \<and>
         ((\<forall>a \<in> set (peers (manager c)).
             port_ok (snd a) \<and> (\<forall>h. connect_result lib h a = Failed)) \<and>
          nat (max_retries c) \<le> length (peers (manager c)) \<longrightarrow>
            fst (reconnect lib c) = Inr False \<and>
            events_since c (snd (reconnect lib c)) =
              (if connected c \<and> client_socket c then [EClose] else []) @
              concat (map (\<lambda>a. [EConnect a, EGetNewPeer (client_id c)])
                (take (nat (max_retries c)) ((host_ip c, host_port c) # peers (manager c)))) @
              [EHandleClientFailure (client_id c), EClose] \<and>
            peers (manager (snd (reconnect lib c)))
              = drop (nat (max_retries c)) (peers (manager c)))"
proof -
  let ?c1 = "snd (reconnect_attempt lib c)"
  let ?c2 = "request_new_peer ?c1"
  let ?t = "(host_ip c, host_port c)"
  let ?pre = "if connected c \<and> client_socket c then [EClose] else []"
  from assms(2,3) have tm: "settimeout lib (timeout c) = None"
    by (simp add: settimeout_accepts)
  from assms(4,5) have tf: "\<forall>h. socket_connect lib h (host_ip c, host_port c) = Failed"
    by (simp add: socket_connect_failed)
  from assms(1) tm tf have r: "reconnect lib c = reconnect_loop lib 1 ?c2"
    unfolding reconnect_def
    using reconnect_loop_failed_attempt [of 0 c lib] by simp
  have h1: "history ?c1 = history c @ ?pre @ [EConnect ?t]"
    using tm by (simp add: reconnect_attempt_history)
  obtain evs where evs: "history (snd (reconnect_loop lib 1 ?c2)) = history ?c2 @ evs"
    using reconnect_loop_history_grows by blast
  obtain more where more: "history ?c2 = history ?c1 @ EGetNewPeer (client_id c) # more"
    by (simp add: request_new_peer_history)
  have ev: "events_since c (snd (reconnect lib c))
      = ?pre @ EConnect ?t # EGetNewPeer (client_id c) # (more @ evs)"
    unfolding events_since_def r evs more h1 by simp
  then have first: "\<exists>evs. events_since c (snd (reconnect lib c)) =
      ?pre @ EConnect ?t # EGetNewPeer (client_id c) # evs"
    by blast
  have one: "attempts_before_request ?t (events_since c (snd (reconnect lib c))) = 1"
    unfolding ev by simp
  have rounds: "fst (reconnect lib c) = Inr False \<and>
      events_since c (snd (reconnect lib c)) =
        ?pre @
        concat (map (\<lambda>a. [EConnect a, EGetNewPeer (client_id c)])
          (take (nat (max_retries c)) (?t # peers (manager c)))) @
        [EHandleClientFailure (client_id c), EClose] \<and>
      peers (manager (snd (reconnect lib c))) = drop (nat (max_retries c)) (peers (manager c))"
    if pool_fails: "\<forall>a \<in> set (peers (manager c)).
        port_ok (snd a) \<and> (\<forall>h. connect_result lib h a = Failed)"
      and len: "nat (max_retries c) \<le> length (peers (manager c))"
  proof -
    from pool_fails
    have pf: "\<forall>h. \<forall>a \<in> set (peers (manager c)). socket_connect lib h a = Failed"
      by (simp add: socket_connect_failed)
    from assms(1) len obtain p ps where pool: "peers (manager c) = p # ps"
      by (cases "peers (manager c)") auto
    then have pool1: "peers (manager ?c1) = p # ps" by simp
    note g = request_new_peer_granted [OF pool1]
    have f: "(host_ip ?c2, host_port ?c2) = p" "peers (manager ?c2) = ps"
      "client_id ?c2 = client_id c" "max_retries ?c2 = max_retries c"
      by (simp_all add: g)
    have h2: "history ?c2 = history c @ ?pre @ [EConnect ?t, EGetNewPeer (client_id c)]"
      unfolding g h1 by simp
    have t: "settimeout lib (timeout ?c2) = None"
      using tm by simp
    have a: "\<forall>h. \<forall>a \<in> set ((host_ip ?c2, host_port ?c2) # peers (manager ?c2)).
        socket_connect lib h a = Failed"
      unfolding f using pf by (simp add: pool)
    have l: "nat (max_retries ?c2 - 1) \<le> length (peers (manager ?c2))"
      unfolding f using len by (simp add: pool)
    have n: "\<not> connected ?c2"
      using reconnect_attempt_failed(2) [OF tm tf]
      by (rule request_new_peer_connected)
    have s: "client_socket ?c2" by simp
    have tk: "take (nat (max_retries c)) (?t # p # ps) = ?t # take (nat (max_retries c - 1)) (p # ps)"
      using assms(1) by (cases "nat (max_retries c)") (simp_all add: nat_diff_distrib)
    have dr: "drop (nat (max_retries c)) (p # ps) = drop (nat (max_retries c - 1)) ps"
      using assms(1) by (cases "nat (max_retries c)") (simp_all add: nat_diff_distrib)
    note af = reconnect_loop_all_fail [OF t a l n s]
    from af [THEN conjunct1]
    have 1: "fst (reconnect lib c) = Inr False"
      unfolding r .
    from af [THEN conjunct2, THEN conjunct1]
    have "history (snd (reconnect lib c)) =
        history c @ ?pre @
        concat (map (\<lambda>a. [EConnect a, EGetNewPeer (client_id c)])
          (take (nat (max_retries c)) (?t # peers (manager c)))) @
        [EHandleClientFailure (client_id c), EClose]"
      unfolding r pool tk f h2 by simp
    then have 2: "events_since c (snd (reconnect lib c)) =
        ?pre @
        concat (map (\<lambda>a. [EConnect a, EGetNewPeer (client_id c)])
          (take (nat (max_retries c)) (?t # peers (manager c)))) @
        [EHandleClientFailure (client_id c), EClose]"
      by (simp add: events_since_def)
    from af [THEN conjunct2, THEN conjunct2]
    have 3: "peers (manager (snd (reconnect lib c)))
        = drop (nat (max_retries c)) (peers (manager c))"
      unfolding r pool dr f .
    from 1 2 3 show ?thesis by (intro conjI)
  qed
  from first one rounds show ?thesis by blast
qed

theorem reconnect_one_attempt_then_request_witness:
  "take 2 (events_since
      (new_client \<lparr>peers = [(''B'', 2), (''C'', 3), (''D'', 4)], active_clients = []\<rparr> ''A'' 1 10 3 7)
      (snd (reconnect unreachable
         (new_client \<lparr>peers = [(''B'', 2), (''C'', 3), (''D'', 4)], active_clients = []\<rparr>
            ''A'' 1 10 3 7))))
     = [EConnect (''A'', 1), EGetNewPeer 7] \<and>
   attempts_before_request (''A'', 1)
     (events_since
        (new_client \<lparr>peers = [(''B'', 2), (''C'', 3), (''D'', 4)], active_clients = []\<rparr> ''A'' 1 10 3 7)
        (snd (reconnect unreachable
           (new_client \<lparr>peers = [(''B'', 2), (''C'', 3), (''D'', 4)], active_clients = []\<rparr>
              ''A'' 1 10 3 7)))) = 1 \<and>
   fst (reconnect unreachable
     (new_client \<lparr>peers = [(''B'', 2), (''C'', 3), (''D'', 4)], active_clients = []\<rparr>
        ''A'' 1 10 3 7)) = Inr False \<and>
   events_since
     (new_client \<lparr>peers = [(''B'', 2), (''C'', 3), (''D'', 4)], active_clients = []\<rparr> ''A'' 1 10 3 7)
     (snd (reconnect unreachable
        (new_client \<lparr>peers = [(''B'', 2), (''C'', 3), (''D'', 4)], active_clients = []\<rparr>
           ''A'' 1 10 3 7)))
     = [EConnect (''A'', 1), EGetNewPeer 7, EConnect (''B'', 2), EGetNewPeer 7,
        EConnect (''C'', 3), EGetNewPeer 7, EHandleClientFailure 7, EClose] \<and>
   peers (manager (snd (reconnect unreachable
     (new_client \<lparr>peers = [(''B'', 2), (''C'', 3), (''D'', 4)], active_clients = []\<rparr>
        ''A'' 1 10 3 7)))) = []"
proof -
  let ?c = "new_client \<lparr>peers = [(''B'', 2), (''C'', 3), (''D'', 4)], active_clients = []\<rparr>
    ''A'' 1 10 3 7"
  have f: "host_ip ?c = ''A''" "host_port ?c = 1" "client_id ?c = 7" "max_retries ?c = 3"
    "timeout ?c = 10" "connected ?c = False"
    "peers (manager ?c) = [(''B'', 2), (''C'', 3), (''D'', 4)]"
    by (simp_all add: new_client_def)
  have 1: "1 \<le> max_retries ?c" by (simp add: f)
  have 2: "0 \<le> timeout ?c" "timeout_check unreachable (timeout ?c) = None"
    by (simp_all add: f unreachable_def)
  have 3: "port_ok (host_port ?c)"
    "\<forall>h. connect_result unreachable h (host_ip ?c, host_port ?c) = Failed"
    by (simp_all add: f unreachable_def port_ok_def)
  have 4: "(\<forall>a \<in> set (peers (manager ?c)).
        port_ok (snd a) \<and> (\<forall>h. connect_result unreachable h a = Failed)) \<and>
      nat (max_retries ?c) \<le> length (peers (manager ?c))"
    by (simp add: f unreachable_def port_ok_def)
  note w = reconnect_one_attempt_then_request [where c = ?c and lib = unreachable, OF 1 2 3]
  note a = w [THEN conjunct2, THEN conjunct1]
  note b = w [THEN conjunct2, THEN conjunct2, THEN mp, OF 4]
  have tk: "nat 3 = 3" by simp
  from b [THEN conjunct2, THEN conjunct1]
  have e: "events_since ?c (snd (reconnect unreachable ?c))
     = [EConnect (''A'', 1), EGetNewPeer 7, EConnect (''B'', 2), EGetNewPeer 7,
        EConnect (''C'', 3), EGetNewPeer 7, EHandleClientFailure 7, EClose]"
    unfolding f by (simp add: numeral_3_eq_3)
  from b [THEN conjunct2, THEN conjunct2]
  have p: "peers (manager (snd (reconnect unreachable ?c))) = []"
    unfolding f by simp
  have t2: "take 2 (events_since ?c (snd (reconnect unreachable ?c)))
      = [EConnect (''A'', 1), EGetNewPeer 7]"
    unfolding e by simp
  from a have a': "attempts_before_request (''A'', 1)
      (events_since ?c (snd (reconnect unreachable ?c))) = 1"
    unfolding f .
  from t2 a' b [THEN conjunct1] e p show ?thesis by (intro conjI)
qed

text \<open>
  C5: when the pool is empty at the moment \<open>reconnect\<close> asks for a new peer, the client
  should fail for good at once, without another connection attempt, and its entry should be
  gone from the table. The entry is removed, but the loop goes on: with \<open>max_retries = 2\<close>,
  an empty pool and an unreachable target, the refused request is followed by a second
  connection attempt, a second request and two more failure notifications (each
  notification is followed by the closing of the socket).
\<close>

theorem reconnect_after_refused_request:
  "events_since
     (new_client \<lparr>peers = [], active_clients = [(7, (''A'', 1))]\<rparr> ''A'' 1 10 2 7)
     (snd (reconnect unreachable
        (new_client \<lparr>peers = [], active_clients = [(7, (''A'', 1))]\<rparr> ''A'' 1 10 2 7)))
   = [EConnect (''A'', 1), EGetNewPeer 7, EHandleClientFailure 7, EClose,
      EConnect (''A'', 1), EGetNewPeer 7, EHandleClientFailure 7, EClose,
      EHandleClientFailure 7, EClose] \<and>
   active_clients (manager (snd (reconnect unreachable
      (new_client \<lparr>peers = [], active_clients = [(7, (''A'', 1))]\<rparr> ''A'' 1 10 2 7)))) = []"
  by code_simp

text \<open>
  C6, as stated: when the write fails, \<open>send\<close> returns the outcome of the reconnection.
  This fails: \<open>send\<close> returns \<open>None\<close>, here after a reconnection that succeeded.
\<close>

theorem send_outcome_counterexample:
  "fst (send json_dumps reachable False JNull
          (snd (connect reachable (new_client init_manager ''A'' 1 10 2 7)))) = Inr None \<and>
   fst (reconnect reachable
          (snd (connect reachable (new_client init_manager ''A'' 1 10 2 7)))) = Inr True"
  by code_simp

text \<open>
  C6, amended: when \<open>send\<close> is called on a connected client and the write fails, the
  reconnection policy runs exactly once, on the client as it is: the state \<open>send\<close> leaves
  is the state one call of \<open>reconnect\<close> leaves, which begins by closing the socket and
  calling \<open>connect\<close> with the current address (with no retry allowed it only notifies the
  manager and closes). \<open>send\<close> returns \<open>None\<close> whatever boolean the reconnection returns,
  and that boolean is left in the \<open>connected\<close> flag. This holds when the library accepts
  the timeout and raises, for no address the client has or can be given from the pool,
  an exception that \<open>connect\<close> does not catch (a port outside \<open>0..65535\<close> does): such an
  exception leaves \<open>reconnect\<close> and \<open>send\<close>.
\<close>

theorem send_write_failure:
  assumes "connected c" and "client_socket c"
    and "0 \<le> timeout c" and "timeout_check lib (timeout c) = None"
    and "\<forall>a \<in> set ((host_ip c, host_port c) # peers (manager c)).
           port_ok (snd a) \<and> (\<forall>h. \<not> raises (connect_result lib h a))"
  shows "\<exists>b evs.
     fst (reconnect lib c) = Inr b \<and>
     send dumps lib False data c = (Inr None, snd (reconnect lib c)) \<and>
     connected (snd (send dumps lib False data c)) = b \<and>
     events_since c (snd (send dumps lib False data c)) =
       (if 0 < max_retries c then EClose # EConnect (host_ip c, host_port c) # evs
        else [EHandleClientFailure (client_id c), EClose])"
proof -
  from assms(3,4) have tm: "settimeout lib (timeout c) = None"
    by (simp add: settimeout_accepts)
  from assms(5) have calm: "\<forall>h. \<forall>a \<in> set ((host_ip c, host_port c) # peers (manager c)).
      \<not> raises (socket_connect lib h a)"
    by (simp add: socket_connect_raises)
  from reconnect_loop_returns [OF tm calm, of 0]
  obtain b where b: "fst (reconnect lib c) = Inr b"
    unfolding reconnect_def by blast
  then have s: "send dumps lib False data c = (Inr None, snd (reconnect lib c))"
    using assms(1,2) by (cases "reconnect lib c") (simp add: send_def)
  from assms(2) have "client_socket c \<or> \<not> connected c" by simp
  from reconnect_loop_connected [OF this, of lib 0] b
  have k: "connected (snd (reconnect lib c)) = b"
    unfolding reconnect_def by blast
  from reconnect_connected_trace [OF assms(1,2) tm] obtain evs where
    "history (snd (reconnect lib c)) =
       history c @
       (if 0 < max_retries c then EClose # EConnect (host_ip c, host_port c) # evs
        else [EHandleClientFailure (client_id c), EClose])"
    by blast
  then have e: "events_since c (snd (reconnect lib c)) =
       (if 0 < max_retries c then EClose # EConnect (host_ip c, host_port c) # evs
        else [EHandleClientFailure (client_id c), EClose])"
    by (simp add: events_since_def)
  from b s k e show ?thesis
    by (intro exI [of _ b] exI [of _ evs]) simp
qed

theorem send_write_failure_witness:
  "send json_dumps unreachable False JNull
       (snd (connect reachable (new_client init_manager ''A'' 1 10 2 7)))
     = (Inr None, snd (reconnect unreachable
         (snd (connect reachable (new_client init_manager ''A'' 1 10 2 7))))) \<and>
   \<not> connected (snd (send json_dumps unreachable False JNull
       (snd (connect reachable (new_client init_manager ''A'' 1 10 2 7))))) \<and>
   take 2 (events_since (snd (connect reachable (new_client init_manager ''A'' 1 10 2 7)))
     (snd (send json_dumps unreachable False JNull
       (snd (connect reachable (new_client init_manager ''A'' 1 10 2 7))))))
     = [EClose, EConnect (''A'', 1)]"
proof -
  let ?c = "snd (connect reachable (new_client init_manager ''A'' 1 10 2 7))"
  have 1: "connected ?c" by code_simp
  have 2: "client_socket ?c" by simp
  have f: "timeout ?c = 10" "host_ip ?c = ''A''" "host_port ?c = 1" "max_retries ?c = 2"
    "peers (manager ?c) = []"
    by (simp_all add: new_client_def init_manager_def)
  have 3: "0 \<le> timeout ?c" "timeout_check unreachable (timeout ?c) = None"
    unfolding f by (simp_all add: unreachable_def)
  have 4: "\<forall>a \<in> set ((host_ip ?c, host_port ?c) # peers (manager ?c)).
      port_ok (snd a) \<and> (\<forall>h. \<not> raises (connect_result unreachable h a))"
    unfolding f by (simp add: unreachable_def port_ok_def)
  have 5: "fst (reconnect unreachable ?c) = Inr False" by code_simp
  from send_write_failure [where c = ?c and dumps = json_dumps and lib = unreachable
      and data = JNull, OF 1 2 3 4]
  obtain b evs where b: "fst (reconnect unreachable ?c) = Inr b"
    and s: "send json_dumps unreachable False JNull ?c
        = (Inr None, snd (reconnect unreachable ?c))"
    and k: "connected (snd (send json_dumps unreachable False JNull ?c)) = b"
    and e: "events_since ?c (snd (send json_dumps unreachable False JNull ?c)) =
       (if 0 < max_retries ?c then EClose # EConnect (host_ip ?c, host_port ?c) # evs
        else [EHandleClientFailure (client_id ?c), EClose])"
    by blast
  from b 5 have "b = False" by simp
  with k have k': "\<not> connected (snd (send json_dumps unreachable False JNull ?c))"
    by simp
  have e': "take 2 (events_since ?c (snd (send json_dumps unreachable False JNull ?c)))
      = [EClose, EConnect (''A'', 1)]"
    unfolding e f by simp
  from s k' e' show ?thesis by (intro conjI)
qed




section \<open>Facts about the line protocol\<close>

lemma utf8_valid_ascii:
  "\<forall>c \<in> set bytes. (of_char c :: nat) < 128 \<Longrightarrow> utf8_valid bytes"
  by (induction bytes) simp_all

lemma complete_lines_Nil_iff: "complete_lines s = [] \<longleftrightarrow> newline \<notin> set s"
  by (induction s) (auto split: list.splits)

lemma pending_no_newline: "newline \<notin> set s \<Longrightarrow> pending s = s"
  by (induction s) auto

lemma newline_notin_pending: "newline \<notin> set (pending s)"
  by (induction s) auto

lemma complete_lines_split:
  "newline \<in> set s \<Longrightarrow>
     complete_lines s = takeWhile (\<lambda>c. c \<noteq> newline) s
       # complete_lines (tl (dropWhile (\<lambda>c. c \<noteq> newline) s))"
proof (induction s)
  case Nil
  then show ?case by simp
next
  case (Cons c s)
  show ?case
  proof (cases "c = newline")
    case True
    then show ?thesis by simp
  next
    case False
    with Cons.prems have "newline \<in> set s" by simp
    with Cons.IH False show ?thesis by simp
  qed
qed

lemma pending_split:
  "newline \<in> set s \<Longrightarrow> pending s = pending (tl (dropWhile (\<lambda>c. c \<noteq> newline) s))"
proof (induction s)
  case Nil
  then show ?case by simp
next
  case (Cons c s)
  show ?case
  proof (cases "c = newline")
    case True
    then show ?thesis by (simp add: pending_no_newline)
  next
    case False
    with Cons.prems have "newline \<in> set s" by simp
    with Cons.IH False show ?thesis by simp
  qed
qed

lemma complete_lines_append:
  "complete_lines (a @ b) = complete_lines a @ complete_lines (pending a @ b)"
proof (induction a)
  case Nil
  then show ?case by simp
next
  case (Cons c a)
  show ?case
  proof (cases "newline \<in> set a")
    case True
    then have "complete_lines a \<noteq> []" by (simp add: complete_lines_Nil_iff)
    then obtain l ls where "complete_lines a = l # ls" by (cases "complete_lines a") auto
    with Cons.IH True show ?thesis by simp
  next
    case False
    then have "complete_lines a = []" "pending a = a"
      by (simp_all add: complete_lines_Nil_iff pending_no_newline)
    with False show ?thesis by simp
  qed
qed

lemma pending_append: "pending (a @ b) = pending (pending a @ b)"
proof (induction a)
  case Nil
  then show ?case by simp
next
  case (Cons c a)
  show ?case
  proof (cases "newline \<in> set a")
    case True
    with Cons.IH show ?thesis by simp
  next
    case False
    then have "pending a = a" by (simp add: pending_no_newline)
    with False show ?thesis by (auto simp: pending_no_newline)
  qed
qed

lemma complete_lines_line:
  "newline \<notin> set l \<Longrightarrow> complete_lines (l @ newline # s) = l # complete_lines s"
  by (induction l) auto

lemma pending_line: "newline \<notin> set l \<Longrightarrow> pending (l @ newline # s) = pending s"
  by (induction l) (simp_all add: pending_no_newline)

lemma complete_lines_lines:
  "\<forall>l \<in> set ls. newline \<notin> set l \<Longrightarrow> newline \<notin> set r \<Longrightarrow>
     complete_lines (concat (map (\<lambda>l. l @ [newline]) ls) @ r) = ls"
  by (induction ls) (simp_all add: complete_lines_line complete_lines_Nil_iff)

lemma pending_lines:
  "\<forall>l \<in> set ls. newline \<notin> set l \<Longrightarrow> newline \<notin> set r \<Longrightarrow>
     pending (concat (map (\<lambda>l. l @ [newline]) ls) @ r) = r"
  by (induction ls) (simp_all add: pending_line pending_no_newline)

text \<open>While the socket takes every write, no exception leaves \<open>handle_json_rpc\<close>.\<close>

lemma handle_json_rpc_returns:
  "\<forall>h. wr h \<Longrightarrow> fst (handle_json_rpc loads dumps wr s data peer_type) = None"
  by (simp add: handle_json_rpc_def sendall_def split: prod.splits option.splits)

text \<open>What \<open>handle_json_rpc\<close> notes as decoded: the value of the line, when it has one.\<close>

lemma handle_request_decoded:
  "decoded (snd (handle_request dumps wr peer_type message s)) = decoded s"
  by (simp add: handle_request_def sendall_def send_hello_world_def Let_def
      split: sum.splits)

lemma handle_response_decoded:
  "decoded (snd (handle_response dumps wr peer_type message s)) = decoded s"
  by (simp add: handle_response_def sendall_def send_hello_world_def split: sum.splits)

lemma rpc_try_decoded:
  "decoded (snd (rpc_try loads dumps wr s data peer_type))
     = decoded s @ (case loads data of None \<Rightarrow> [] | Some message \<Rightarrow> [message])"
  by (simp add: rpc_try_def Let_def handle_request_decoded handle_response_decoded
      split: option.splits sum.splits bool.splits)

lemma handle_json_rpc_decoded:
  "decoded (snd (handle_json_rpc loads dumps wr s data peer_type))
     = decoded s @ (case loads data of None \<Rightarrow> [] | Some message \<Rightarrow> [message])"
proof -
  obtain x s1 where r: "rpc_try loads dumps wr s data peer_type = (x, s1)"
    by (cases "rpc_try loads dumps wr s data peer_type")
  with rpc_try_decoded [of loads dumps wr s data peer_type]
  have "decoded s1 = decoded s @ (case loads data of None \<Rightarrow> [] | Some message \<Rightarrow> [message])"
    by simp
  with r show ?thesis
    by (cases x) (simp_all add: handle_json_rpc_def sendall_def)
qed

lemma fold_handle_json_rpc_decoded:
  "decoded (fold (\<lambda>l s. snd (handle_json_rpc loads dumps wr s l peer_type)) ls s)
     = decoded s @ List.map_filter loads ls"
  by (induction ls arbitrary: s)
    (simp_all add: handle_json_rpc_decoded split: option.splits)

text \<open>
  The answer to a request: the echo of its parameter under its id and, from a server, the
  next request (or the error response when the id has no successor); for any other method
  the error \<open>-32601\<close> under its id.
\<close>

lemma handle_json_rpc_request:
  assumes "\<forall>h. wr h"
    and "loads line = Some (JObj [(''jsonrpc'', JStr ''2.0''), (''method'', JStr method),
           (''params'', params), (''id'', request_id)])"
  shows "sent (snd (handle_json_rpc loads dumps wr s line peer_type)) =
     sent s @
     (if method = ''echo'' then
        [dumps (JObj [(''jsonrpc'', JStr ''2.0''), (''id'', request_id),
                      (''result'', params)]) @ [newline]] @
        (if peer_type = ''Server'' then
           (case py_add1 request_id of
              Inr next_id \<Rightarrow> [dumps (hello_request next_id) @ [newline]]
            | Inl e \<Rightarrow> [dumps error_response @ [newline]])
         else [])
      else
        [dumps (JObj [(''jsonrpc'', JStr ''2.0''), (''id'', request_id),
           (''error'', JObj [(''code'', JInt (- 32601)),
                             (''message'', JStr ''Method not found'')])]) @ [newline]])"
  using assms
  by (cases "py_add1 request_id")
    (simp_all add: handle_json_rpc_def rpc_try_def request_shape_def
      handle_request_def sendall_def send_hello_world_def Let_def)

text \<open>
  The inner loop handles the complete lines of the buffer, in order, and leaves what
  follows the last newline.
\<close>

lemma drain_lines:
  "\<forall>h. wr h \<Longrightarrow>
     fst (drain loads dumps wr peer_type st) = None \<and>
     buffer (snd (drain loads dumps wr peer_type st)) = pending (buffer st) \<and>
     handled (snd (drain loads dumps wr peer_type st))
       = handled st @ complete_lines (buffer st) \<and>
     sock (snd (drain loads dumps wr peer_type st))
       = fold (\<lambda>l s. snd (handle_json_rpc loads dumps wr s l peer_type))
           (complete_lines (buffer st)) (sock st)"
proof (induction loads dumps wr peer_type st rule: drain.induct)
  case (1 loads dumps wr peer_type st)
  let ?message = "takeWhile (\<lambda>c. c \<noteq> newline) (buffer st)"
  let ?rest = "tl (dropWhile (\<lambda>c. c \<noteq> newline) (buffer st))"
  show ?case
  proof (cases "newline \<in> set (buffer st)")
    case False
    then have "complete_lines (buffer st) = []"
      by (simp add: complete_lines_Nil_iff)
    with False show ?thesis
      by (subst (1 2 3 4) drain.simps) (simp add: pending_no_newline)
  next
    case True
    obtain s1 where h: "handle_json_rpc loads dumps wr (sock st) ?message peer_type = (None, s1)"
      using handle_json_rpc_returns [OF "1.prems", of loads dumps "sock st" ?message peer_type]
      by (cases "handle_json_rpc loads dumps wr (sock st) ?message peer_type") auto
    let ?st1 = "st\<lparr>buffer := ?rest, sock := s1, handled := handled st @ [?message]\<rparr>"
    have d: "drain loads dumps wr peer_type st = drain loads dumps wr peer_type ?st1"
      using True h by (subst drain.simps) (simp add: Let_def)
    from "1.IH" [OF True refl refl h [symmetric] refl "1.prems"]
    show ?thesis
      unfolding d using True h by (simp add: complete_lines_split pending_split)
  qed
qed

lemma handle_peer_connection_lines:
  "\<forall>h. wr h \<Longrightarrow> \<forall>c \<in> set chunks. c \<noteq> [] \<and> utf8_valid c \<Longrightarrow>
   newline \<notin> set (buffer st) \<Longrightarrow>
     \<exists>st'. handle_peer_connection loads dumps wr peer_type (map RecvData chunks) st
              = (Waiting, st') \<and>
            buffer st' = pending (buffer st @ concat chunks) \<and>
            handled st' = handled st @ complete_lines (buffer st @ concat chunks) \<and>
            sock st' = fold (\<lambda>l s. snd (handle_json_rpc loads dumps wr s l peer_type))
                         (complete_lines (buffer st @ concat chunks)) (sock st)"
proof (induction chunks arbitrary: st)
  case Nil
  then have "complete_lines (buffer st) = []"
    by (simp add: complete_lines_Nil_iff)
  with Nil show ?case
    by (simp add: pending_no_newline handle_peer_connection.simps)
next
  case (Cons c cs)
  let ?st0 = "st\<lparr>buffer := buffer st @ c\<rparr>"
  let ?d = "drain loads dumps wr peer_type ?st0"
  let ?step = "\<lambda>l s. snd (handle_json_rpc loads dumps wr s l peer_type)"
  from Cons.prems(2) have c: "c \<noteq> []" "utf8_valid c"
    and cs: "\<forall>c \<in> set cs. c \<noteq> [] \<and> utf8_valid c"
    by simp_all
  note dl = drain_lines [OF Cons.prems(1), of loads dumps peer_type ?st0]
  from dl have d: "?d = (None, snd ?d)"
    by (cases ?d) simp
  from dl have b: "buffer (snd ?d) = pending (buffer st @ c)"
    and h: "handled (snd ?d) = handled st @ complete_lines (buffer st @ c)"
    and k: "sock (snd ?d) = fold ?step (complete_lines (buffer st @ c)) (sock st)"
    by simp_all
  have step: "handle_peer_connection loads dumps wr peer_type (map RecvData (c # cs)) st
      = handle_peer_connection loads dumps wr peer_type (map RecvData cs) (snd ?d)"
    using c d by (cases ?d) (simp add: decode_utf8_def handle_peer_connection.simps)
  have "newline \<notin> set (buffer (snd ?d))"
    unfolding b by (rule newline_notin_pending)
  from Cons.IH [OF Cons.prems(1) cs this] obtain st' where
    st': "handle_peer_connection loads dumps wr peer_type (map RecvData cs) (snd ?d) = (Waiting, st')"
      "buffer st' = pending (buffer (snd ?d) @ concat cs)"
      "handled st' = handled (snd ?d) @ complete_lines (buffer (snd ?d) @ concat cs)"
      "sock st' = fold ?step (complete_lines (buffer (snd ?d) @ concat cs)) (sock (snd ?d))"
    by blast
  have "buffer st' = pending (buffer st @ concat (c # cs))"
    using st'(2) b pending_append [of "buffer st @ c" "concat cs"] by simp
  moreover have "handled st' = handled st @ complete_lines (buffer st @ concat (c # cs))"
    using st'(3) b h complete_lines_append [of "buffer st @ c" "concat cs"] by simp
  moreover have "sock st' = fold ?step (complete_lines (buffer st @ concat (c # cs))) (sock st)"
    using st'(4) b k complete_lines_append [of "buffer st @ c" "concat cs"] by simp
  ultimately show ?case
    using step st'(1) by simp
qed

text \<open>A text cut in three at fixed places.\<close>

lemma three_chunks: "concat [take 30 e, take 1 (drop 30 e), drop 31 e] = e"
proof -
  have "drop 31 e = drop 1 (drop 30 e)" by simp
  then show ?thesis by (simp del: drop_drop)
qed

text \<open>Reading off the outcome of a run from a statement that it exists.\<close>

lemma run_outcome: "\<exists>st. f = (a, st) \<and> P st \<Longrightarrow> fst f = a \<and> P (snd f)"
  by auto

section \<open>Claims about the line protocol\<close>

text \<open>
  C8: a message written as one line, the JSON text followed by a newline as
  \<open>send_hello_world\<close> writes it, and read back by \<open>handle_peer_connection\<close> in chunks cut
  at arbitrary places, is passed to \<open>handle_json_rpc\<close> as exactly that one line, and what
  \<open>handle_json_rpc\<close> decodes from it is the original message; for a request the
  receiver shows it by its answer, which carries the id and, for the method \<open>echo\<close>, the
  parameter of the request (a server goes on with the request with the next id). In
  general, whatever the chunks, the lines handled are exactly the complete lines of the
  bytes that have arrived, the values decoded are those of the lines that decode, in order,
  and the bytes after the last newline stay in the buffer. The \<open>json\<close> module enters
  through three of its properties: decoding undoes encoding, and the encoded text is ASCII
  and has no newline in it. The receiver's own writes are taken to succeed.
\<close>

theorem framing_roundtrip:
  assumes "\<forall>h. wr h"
  shows "(loads (dumps m) = Some m \<and>
          (\<forall>c \<in> set (dumps m). (of_char c :: nat) < 128 \<and> c \<noteq> newline) \<and>
          concat chunks = dumps m @ [newline] \<and> [] \<notin> set chunks \<longrightarrow>
            (\<exists>st. handle_peer_connection loads dumps wr peer_type (map RecvData chunks)
                     (new_connection s) = (Waiting, st) \<and>
                  handled st = [dumps m] \<and>
                  decoded (sock st) = decoded s @ [m] \<and>
                  buffer st = [] \<and>
                  (\<forall>method params request_id.
                     m = JObj [(''jsonrpc'', JStr ''2.0''), (''method'', JStr method),
                               (''params'', params), (''id'', request_id)] \<longrightarrow>
                     sent (sock st) =
                       sent s @
                       (if method = ''echo'' then
                          [dumps (JObj [(''jsonrpc'', JStr ''2.0''), (''id'', request_id),
                                        (''result'', params)]) @ [newline]] @
                          (if peer_type = ''Server'' then
                             (case py_add1 request_id of
                                Inr next_id \<Rightarrow> [dumps (hello_request next_id) @ [newline]]
                              | Inl e \<Rightarrow> [dumps error_response @ [newline]])
                           else [])
                        else
                          [dumps (JObj [(''jsonrpc'', JStr ''2.0''), (''id'', request_id),
                             (''error'', JObj [(''code'', JInt (- 32601)),
                                (''message'', JStr ''Method not found'')])]) @ [newline]])))) \<and>
         ((\<forall>c \<in> set chunks. c \<noteq> [] \<and> utf8_valid c) \<and>
          (\<forall>l \<in> set ls. newline \<notin> set l) \<and> newline \<notin> set r \<and>
          concat chunks = concat (map (\<lambda>l. l @ [newline]) ls) @ r \<longrightarrow>
            (\<exists>st. handle_peer_connection loads dumps wr peer_type (map RecvData chunks)
                     (new_connection s) = (Waiting, st) \<and>
                  handled st = ls \<and> buffer st = r \<and>
                  decoded (sock st) = decoded s @ List.map_filter loads ls)) \<and>
         snd (send_hello_world dumps wr request_id s)
           = s\<lparr>sent := sent s @ [dumps (hello_request request_id) @ [newline]]\<rparr>"
proof -
  let ?step = "\<lambda>l s. snd (handle_json_rpc loads dumps wr s l peer_type)"
  have general: "\<exists>st. handle_peer_connection loads dumps wr peer_type (map RecvData cs)
                     (new_connection s) = (Waiting, st) \<and>
                  handled st = ks \<and> buffer st = q \<and> sock st = fold ?step ks s"
    if v: "\<forall>c \<in> set cs. c \<noteq> [] \<and> utf8_valid c"
      and l: "\<forall>l \<in> set ks. newline \<notin> set l" and q: "newline \<notin> set q"
      and a: "concat cs = concat (map (\<lambda>l. l @ [newline]) ks) @ q"
    for cs ks q
  proof -
    have "newline \<notin> set (buffer (new_connection s))"
      by (simp add: new_connection_def)
    from handle_peer_connection_lines [OF assms v this]
    obtain st where st: "handle_peer_connection loads dumps wr peer_type (map RecvData cs)
          (new_connection s) = (Waiting, st)"
        "buffer st = pending (buffer (new_connection s) @ concat cs)"
        "handled st = handled (new_connection s) @
           complete_lines (buffer (new_connection s) @ concat cs)"
        "sock st = fold ?step (complete_lines (buffer (new_connection s) @ concat cs))
           (sock (new_connection s))"
      by blast
    from st(2,3,4) have "buffer st = q" "handled st = ks" "sock st = fold ?step ks s"
      by (simp_all add: new_connection_def a pending_lines [OF l q] complete_lines_lines [OF l q])
    with st(1) show ?thesis by blast
  qed
  have lines: "\<exists>st. handle_peer_connection loads dumps wr peer_type (map RecvData chunks)
                     (new_connection s) = (Waiting, st) \<and>
                  handled st = ls \<and> buffer st = r \<and>
                  decoded (sock st) = decoded s @ List.map_filter loads ls"
    if v: "\<forall>c \<in> set chunks. c \<noteq> [] \<and> utf8_valid c"
      and l: "\<forall>l \<in> set ls. newline \<notin> set l" and q: "newline \<notin> set r"
      and a: "concat chunks = concat (map (\<lambda>l. l @ [newline]) ls) @ r"
  proof -
    from general [OF v l q a] obtain st where
      st: "handle_peer_connection loads dumps wr peer_type (map RecvData chunks)
         (new_connection s) = (Waiting, st)" "handled st = ls" "buffer st = r"
        "sock st = fold ?step ls s"
      by blast
    from st(4) have "decoded (sock st) = decoded s @ List.map_filter loads ls"
      by (simp add: fold_handle_json_rpc_decoded)
    with st(1,2,3) show ?thesis by blast
  qed
  have one: "\<exists>st. handle_peer_connection loads dumps wr peer_type (map RecvData chunks)
                     (new_connection s) = (Waiting, st) \<and>
                  handled st = [dumps m] \<and>
                  decoded (sock st) = decoded s @ [m] \<and>
                  buffer st = [] \<and>
                  (\<forall>method params request_id.
                     m = JObj [(''jsonrpc'', JStr ''2.0''), (''method'', JStr method),
                               (''params'', params), (''id'', request_id)] \<longrightarrow>
                     sent (sock st) =
                       sent s @
                       (if method = ''echo'' then
                          [dumps (JObj [(''jsonrpc'', JStr ''2.0''), (''id'', request_id),
                                        (''result'', params)]) @ [newline]] @
                          (if peer_type = ''Server'' then
                             (case py_add1 request_id of
                                Inr next_id \<Rightarrow> [dumps (hello_request next_id) @ [newline]]
                              | Inl e \<Rightarrow> [dumps error_response @ [newline]])
                           else [])
                        else
                          [dumps (JObj [(''jsonrpc'', JStr ''2.0''), (''id'', request_id),
                             (''error'', JObj [(''code'', JInt (- 32601)),
                                (''message'', JStr ''Method not found'')])]) @ [newline]]))"
    if rt: "loads (dumps m) = Some m"
      and asc: "\<forall>c \<in> set (dumps m). (of_char c :: nat) < 128 \<and> c \<noteq> newline"
      and arr: "concat chunks = dumps m @ [newline]" and ne: "[] \<notin> set chunks"
  proof -
    have "\<forall>c \<in> set (concat chunks). (of_char c :: nat) < 128"
      unfolding arr using asc by (simp add: newline_def)
    then have "\<forall>c \<in> set chunks. \<forall>x \<in> set c. (of_char x :: nat) < 128"
      by auto
    then have v: "\<forall>c \<in> set chunks. c \<noteq> [] \<and> utf8_valid c"
      using ne by (auto intro: utf8_valid_ascii)
    have l: "\<forall>l \<in> set [dumps m]. newline \<notin> set l"
      using asc by auto
    have a: "concat chunks = concat (map (\<lambda>l. l @ [newline]) [dumps m]) @ []"
      using arr by simp
    from general [OF v l _ a] obtain st where
      st: "handle_peer_connection loads dumps wr peer_type (map RecvData chunks)
         (new_connection s) = (Waiting, st)" "handled st = [dumps m]" "buffer st = []"
        "sock st = fold ?step [dumps m] s"
      by auto
    from st(4) have k: "sock st = snd (handle_json_rpc loads dumps wr s (dumps m) peer_type)"
      by simp
    have d: "decoded (sock st) = decoded s @ [m]"
      unfolding k by (simp add: handle_json_rpc_decoded rt)
    have h: "sent (sock st) =
         sent s @
         (if meth = ''echo'' then
            [dumps (JObj [(''jsonrpc'', JStr ''2.0''), (''id'', rid),
                          (''result'', pars)]) @ [newline]] @
            (if peer_type = ''Server'' then
               (case py_add1 rid of
                  Inr next_id \<Rightarrow> [dumps (hello_request next_id) @ [newline]]
                | Inl e \<Rightarrow> [dumps error_response @ [newline]])
             else [])
          else
            [dumps (JObj [(''jsonrpc'', JStr ''2.0''), (''id'', rid),
               (''error'', JObj [(''code'', JInt (- 32601)),
                  (''message'', JStr ''Method not found'')])]) @ [newline]])"
      if "m = JObj [(''jsonrpc'', JStr ''2.0''), (''method'', JStr meth),
                    (''params'', pars), (''id'', rid)]"
      for meth pars rid
      unfolding k using assms rt [unfolded that] unfolding that
      by (rule handle_json_rpc_request)
    from st(1,2,3) d h show ?thesis by blast
  qed
  have "snd (send_hello_world dumps wr request_id s)
      = s\<lparr>sent := sent s @ [dumps (hello_request request_id) @ [newline]]\<rparr>"
    using assms by (simp add: send_hello_world_def sendall_def)
  with one lines show ?thesis by blast
qed

theorem framing_roundtrip_witness:
  "fst (handle_peer_connection json_loads json_dumps writable ''Server''
     (map RecvData
        [take 30 (json_dumps (hello_request (JInt 1)) @ [newline]),
         take 1 (drop 30 (json_dumps (hello_request (JInt 1)) @ [newline])),
         drop 31 (json_dumps (hello_request (JInt 1)) @ [newline])])
     (new_connection \<lparr>sent = [], decoded = []\<rparr>)) = Waiting \<and>
   decoded (sock (snd (handle_peer_connection json_loads json_dumps writable ''Server''
     (map RecvData
        [take 30 (json_dumps (hello_request (JInt 1)) @ [newline]),
         take 1 (drop 30 (json_dumps (hello_request (JInt 1)) @ [newline])),
         drop 31 (json_dumps (hello_request (JInt 1)) @ [newline])])
     (new_connection \<lparr>sent = [], decoded = []\<rparr>)))) = [hello_request (JInt 1)] \<and>
   sent (sock (snd (handle_peer_connection json_loads json_dumps writable ''Server''
     (map RecvData
        [take 30 (json_dumps (hello_request (JInt 1)) @ [newline]),
         take 1 (drop 30 (json_dumps (hello_request (JInt 1)) @ [newline])),
         drop 31 (json_dumps (hello_request (JInt 1)) @ [newline])])
     (new_connection \<lparr>sent = [], decoded = []\<rparr>))))
     = [json_dumps (JObj [(''jsonrpc'', JStr ''2.0''), (''id'', JInt 1),
                          (''result'', JStr ''hello world'')]) @ [newline],
        json_dumps (hello_request (JInt 2)) @ [newline]] \<and>
   handled (snd (handle_peer_connection json_loads json_dumps writable ''Client''
     (map RecvData [''[1, '', ''2]'' @ [newline] @ ''x'' @ [newline, newline] @ ''tr''])
     (new_connection \<lparr>sent = [], decoded = []\<rparr>))) = [''[1, 2]'', ''x'', ''''] \<and>
   buffer (snd (handle_peer_connection json_loads json_dumps writable ''Client''
     (map RecvData [''[1, '', ''2]'' @ [newline] @ ''x'' @ [newline, newline] @ ''tr''])
     (new_connection \<lparr>sent = [], decoded = []\<rparr>))) = ''tr'' \<and>
   decoded (sock (snd (handle_peer_connection json_loads json_dumps writable ''Client''
     (map RecvData [''[1, '', ''2]'' @ [newline] @ ''x'' @ [newline, newline] @ ''tr''])
     (new_connection \<lparr>sent = [], decoded = []\<rparr>)))) = [JArr [JInt 1, JInt 2]]"
proof -
  let ?m = "hello_request (JInt 1)"
  let ?enc = "json_dumps ?m @ [newline]"
  let ?chunks = "[take 30 ?enc, take 1 (drop 30 ?enc), drop 31 ?enc]"
  let ?chunks2 = "[''[1, '', ''2]'' @ [newline] @ ''x'' @ [newline, newline] @ ''tr'']"
  let ?s = "\<lparr>sent = [], decoded = []\<rparr>"
  have w: "\<forall>h. writable h" by (simp add: writable_def)
  have rt: "json_loads (json_dumps ?m) = Some ?m" by code_simp
  have asc: "\<forall>c \<in> set (json_dumps ?m). (of_char c :: nat) < 128 \<and> c \<noteq> newline"
    by code_simp
  have arr: "concat ?chunks = json_dumps ?m @ [newline]"
    by (rule three_chunks)
  have ne: "[] \<notin> set ?chunks" by code_simp
  have v2: "\<forall>c \<in> set ?chunks2. c \<noteq> [] \<and> utf8_valid c" by code_simp
  have l2: "\<forall>l \<in> set [''[1, 2]'', ''x'', '''']. newline \<notin> set l" by code_simp
  have r2: "newline \<notin> set ''tr''" by code_simp
  have a2: "concat ?chunks2 = concat (map (\<lambda>l. l @ [newline]) [''[1, 2]'', ''x'', '''']) @ ''tr''"
    by simp
  have mf: "List.map_filter json_loads [''[1, 2]'', ''x'', ''''] = [JArr [JInt 1, JInt 2]]"
    by code_simp
  have sel: "decoded ?s = []" "sent ?s = []" by simp_all
  note t = framing_roundtrip [where wr = writable and loads = json_loads and dumps = json_dumps
      and m = ?m and chunks = ?chunks and s = ?s and peer_type = "''Server''",
      OF w, THEN conjunct1, THEN mp, OF conjI [OF rt conjI [OF asc conjI [OF arr ne]]]]
  note u = framing_roundtrip [where wr = writable and loads = json_loads and dumps = json_dumps
      and chunks = ?chunks2 and ls = "[''[1, 2]'', ''x'', '''']" and r = "''tr''"
      and s = ?s and peer_type = "''Client''",
      OF w, THEN conjunct2, THEN conjunct1, THEN mp,
      OF conjI [OF v2 conjI [OF l2 conjI [OF r2 a2]]]]
  note p = run_outcome [OF t]
  note q = run_outcome [OF u]
  note p1 = p [THEN conjunct1]
  note p2 = p [THEN conjunct2, THEN conjunct2, THEN conjunct1, unfolded sel append_Nil]
  note p3 = p [THEN conjunct2, THEN conjunct2, THEN conjunct2, THEN conjunct2, THEN spec,
      THEN spec, THEN spec, THEN mp, OF hello_request_def,
      unfolded sel append_Nil if_P [OF refl] py_add1.simps sum.case one_add_one append.simps]
  note q1 = q [THEN conjunct2, THEN conjunct1]
  note q2 = q [THEN conjunct2, THEN conjunct2, THEN conjunct1]
  note q3 = q [THEN conjunct2, THEN conjunct2, THEN conjunct2, unfolded sel mf append_Nil]
  show ?thesis
    by (rule conjI [OF p1 conjI [OF p2 conjI [OF p3 conjI [OF q1 conjI [OF q2 q3]]]]])
qed

text \<open>
  C9, as stated: a line that parses but matches neither the request shape nor the response
  shape is answered with the Invalid-Request error response. This fails for the shapes as
  the specification describes them. On a server, the line \<open>"result"\<close>, a JSON string and
  so neither a request nor a response, passes the receiver's second test (\<open>'result' in
  message\<close> is a substring test on a string) and is answered with nothing. The line
  \<open>{"method": 5, "params": [], "id": 1}\<close>, which is no request since its method is not a
  string and it has no \<open>jsonrpc\<close> member, passes the first test and is answered with the
  error \<open>-32601\<close> under the id \<open>1\<close>.
\<close>

theorem invalid_request_counterexample:
  "json_loads ([CHR 0x22] @ ''result'' @ [CHR 0x22]) = Some (JStr ''result'') \<and>
   \<not> spec_request_shape (JStr ''result'') \<and> \<not> spec_response_shape (JStr ''result'') \<and>
   handle_json_rpc json_loads json_dumps writable \<lparr>sent = [], decoded = []\<rparr>
       ([CHR 0x22] @ ''result'' @ [CHR 0x22]) ''Server''
     = (None, \<lparr>sent = [], decoded = [JStr ''result'']\<rparr>) \<and>
   json_loads (''{'' @ [CHR 0x22] @ ''method'' @ [CHR 0x22] @ '': 5, '' @ [CHR 0x22] @ ''params''
       @ [CHR 0x22] @ '': [], '' @ [CHR 0x22] @ ''id'' @ [CHR 0x22] @ '': 1}'')
     = Some (JObj [(''method'', JInt 5), (''params'', JArr []), (''id'', JInt 1)]) \<and>
   \<not> spec_request_shape (JObj [(''method'', JInt 5), (''params'', JArr []), (''id'', JInt 1)]) \<and>
   \<not> spec_response_shape (JObj [(''method'', JInt 5), (''params'', JArr []), (''id'', JInt 1)]) \<and>
   sent (snd (handle_json_rpc json_loads json_dumps writable \<lparr>sent = [], decoded = []\<rparr>
       (''{'' @ [CHR 0x22] @ ''method'' @ [CHR 0x22] @ '': 5, '' @ [CHR 0x22] @ ''params''
        @ [CHR 0x22] @ '': [], '' @ [CHR 0x22] @ ''id'' @ [CHR 0x22] @ '': 1}'') ''Server''))
     = [json_dumps (JObj [(''jsonrpc'', JStr ''2.0''), (''id'', JInt 1),
          (''error'', JObj [(''code'', JInt (- 32601)),
                            (''message'', JStr ''Method not found'')])]) @ [newline]]"
proof -
  let ?l1 = "[CHR 0x22] @ ''result'' @ [CHR 0x22]"
  let ?l2 = "''{'' @ [CHR 0x22] @ ''method'' @ [CHR 0x22] @ '': 5, '' @ [CHR 0x22] @ ''params''
       @ [CHR 0x22] @ '': [], '' @ [CHR 0x22] @ ''id'' @ [CHR 0x22] @ '': 1}''"
  let ?m2 = "JObj [(''method'', JInt 5), (''params'', JArr []), (''id'', JInt 1)]"
  have 1: "json_loads ?l1 = Some (JStr ''result'')" by code_simp
  have 2: "\<not> spec_request_shape (JStr ''result'')" "\<not> spec_response_shape (JStr ''result'')"
    by simp_all
  have 3: "handle_json_rpc json_loads json_dumps writable \<lparr>sent = [], decoded = []\<rparr> ?l1 ''Server''
      = (None, \<lparr>sent = [], decoded = [JStr ''result'']\<rparr>)"
  proof -
    have "sublist ''method'' ''result'' = False" and "sublist ''result'' ''result'' = True"
      by code_simp+
    then show ?thesis
      unfolding handle_json_rpc_def rpc_try_def 1
      by (simp add: request_shape_def response_shape_def handle_response_def)
  qed
  have 4: "json_loads ?l2 = Some ?m2" by code_simp
  have 5: "\<not> spec_request_shape ?m2" "\<not> spec_response_shape ?m2"
    by simp_all
  have 6: "sent (snd (handle_json_rpc json_loads json_dumps writable
        \<lparr>sent = [], decoded = []\<rparr> ?l2 ''Server''))
     = [json_dumps (JObj [(''jsonrpc'', JStr ''2.0''), (''id'', JInt 1),
          (''error'', JObj [(''code'', JInt (- 32601)),
                            (''message'', JStr ''Method not found'')])]) @ [newline]]"
    unfolding handle_json_rpc_def rpc_try_def 4
    by (simp add: request_shape_def handle_request_def sendall_def writable_def Let_def)
  from 1 2 3 4 5 6 show ?thesis by (intro conjI)
qed

text \<open>
  C9, amended: a line that does not decode, or that decodes to a value on which both tests
  of \<open>handle_json_rpc\<close> fail (the test for the three keys of a request and the test for
  \<open>result\<close> or \<open>error\<close>, each false or raising), is answered with exactly one message, the
  error response with code \<open>-32600\<close> and id \<open>null\<close>, and \<open>handle_json_rpc\<close> returns
  normally; in the receive loop the line is taken off the buffer and the loop goes on with
  what follows it. The write of the answer is taken to succeed.
\<close>

theorem invalid_line_answered:
  assumes "loads line = None \<or>
      (\<exists>message. loads line = Some message \<and>
         request_shape message \<noteq> Inr True \<and> response_shape message \<noteq> Inr True)"
    and "wr (sent s)"
  shows "handle_json_rpc loads dumps wr s line peer_type
           = (None, s\<lparr>sent := sent s @ [dumps error_response @ [newline]],
                       decoded := decoded s @
                         (case loads line of None \<Rightarrow> [] | Some message \<Rightarrow> [message])\<rparr>) \<and>
         py_getitem error_response ''id'' = Inr JNull \<and>
         py_getitem error_response ''error''
           = Inr (JObj [(''code'', JInt (- 32600)), (''message'', JStr ''Invalid Request'')]) \<and>
         (newline \<notin> set line \<and> sock st = s \<and> buffer st = line @ newline # rest \<longrightarrow>
            drain loads dumps wr peer_type st
              = drain loads dumps wr peer_type
                  (st\<lparr>buffer := rest,
                      sock := s\<lparr>sent := sent s @ [dumps error_response @ [newline]],
                                decoded := decoded s @
                                  (case loads line of None \<Rightarrow> [] | Some message \<Rightarrow> [message])\<rparr>,
                      handled := handled st @ [line]\<rparr>))"
proof -
  let ?s0 = "s\<lparr>decoded := decoded s @
      (case loads line of None \<Rightarrow> [] | Some message \<Rightarrow> [message])\<rparr>"
  have "\<exists>e. rpc_try loads dumps wr s line peer_type = (Some e, ?s0)"
  proof (cases "loads line")
    case None
    then show ?thesis by (simp add: rpc_try_def)
  next
    case (Some message)
    with assms(1) have n: "request_shape message \<noteq> Inr True" "response_shape message \<noteq> Inr True"
      by auto
    then show ?thesis
      using Some by (auto simp: rpc_try_def Let_def split: sum.splits bool.splits)
  qed
  then have h: "handle_json_rpc loads dumps wr s line peer_type
      = (None, s\<lparr>sent := sent s @ [dumps error_response @ [newline]],
                  decoded := decoded s @
                    (case loads line of None \<Rightarrow> [] | Some message \<Rightarrow> [message])\<rparr>)"
    using assms(2) by (auto simp: handle_json_rpc_def sendall_def)
  have d: "drain loads dumps wr peer_type st
      = drain loads dumps wr peer_type
          (st\<lparr>buffer := rest,
              sock := s\<lparr>sent := sent s @ [dumps error_response @ [newline]],
                        decoded := decoded s @
                          (case loads line of None \<Rightarrow> [] | Some message \<Rightarrow> [message])\<rparr>,
              handled := handled st @ [line]\<rparr>)"
    if "newline \<notin> set line" "sock st = s" "buffer st = line @ newline # rest"
  proof -
    from that(1) have "takeWhile (\<lambda>c. c \<noteq> newline) (line @ newline # rest) = line"
      by (induction line) auto
    moreover from that(1) have "dropWhile (\<lambda>c. c \<noteq> newline) (line @ newline # rest) = newline # rest"
      by (induction line) auto
    ultimately show ?thesis
      using that h by (subst drain.simps) (simp add: Let_def)
  qed
  from h d show ?thesis by (simp add: error_response_def)
qed

theorem invalid_line_answered_witness:
  "json_loads ''not-json'' = None \<and>
   handle_json_rpc json_loads json_dumps writable \<lparr>sent = [], decoded = []\<rparr> ''not-json'' ''Server''
     = (None, \<lparr>sent = [json_dumps error_response @ [newline]], decoded = []\<rparr>) \<and>
   json_dumps error_response
     = ''{'' @ [CHR 0x22] @ ''jsonrpc'' @ [CHR 0x22] @ '': '' @ [CHR 0x22] @ ''2.0'' @ [CHR 0x22]
       @ '', '' @ [CHR 0x22] @ ''error'' @ [CHR 0x22] @ '': {'' @ [CHR 0x22] @ ''code''
       @ [CHR 0x22] @ '': -32600, '' @ [CHR 0x22] @ ''message'' @ [CHR 0x22] @ '': ''
       @ [CHR 0x22] @ ''Invalid Request'' @ [CHR 0x22] @ ''}, '' @ [CHR 0x22] @ ''id''
       @ [CHR 0x22] @ '': null}'' \<and>
   json_loads ''[1, 2]'' = Some (JArr [JInt 1, JInt 2]) \<and>
   handle_json_rpc json_loads json_dumps writable \<lparr>sent = [], decoded = []\<rparr> ''[1, 2]'' ''Client''
     = (None, \<lparr>sent = [json_dumps error_response @ [newline]],
               decoded = [JArr [JInt 1, JInt 2]]\<rparr>)"
proof -
  have 1: "json_loads ''not-json'' = None" by code_simp
  have 2: "json_loads ''[1, 2]'' = Some (JArr [JInt 1, JInt 2])" by code_simp
  have 3: "request_shape (JArr [JInt 1, JInt 2]) \<noteq> Inr True \<and>
      response_shape (JArr [JInt 1, JInt 2]) \<noteq> Inr True"
    by (simp add: request_shape_def response_shape_def)
  have w: "writable (sent \<lparr>sent = [], decoded = []\<rparr>)" by (simp add: writable_def)
  have i: "show_int (- 32600) = ''-32600''"
    by (simp add: show_int_def show_nat.simps digit_char_def)
  have e: "json_dumps error_response
     = ''{'' @ [CHR 0x22] @ ''jsonrpc'' @ [CHR 0x22] @ '': '' @ [CHR 0x22] @ ''2.0'' @ [CHR 0x22]
       @ '', '' @ [CHR 0x22] @ ''error'' @ [CHR 0x22] @ '': {'' @ [CHR 0x22] @ ''code''
       @ [CHR 0x22] @ '': -32600, '' @ [CHR 0x22] @ ''message'' @ [CHR 0x22] @ '': ''
       @ [CHR 0x22] @ ''Invalid Request'' @ [CHR 0x22] @ ''}, '' @ [CHR 0x22] @ ''id''
       @ [CHR 0x22] @ '': null}''"
    by (simp add: error_response_def show_string_def escape_char_def i)
  from 1 have a: "json_loads ''not-json'' = None \<or>
      (\<exists>message. json_loads ''not-json'' = Some message \<and>
         request_shape message \<noteq> Inr True \<and> response_shape message \<noteq> Inr True)"
    by simp
  from 2 3 have b: "json_loads ''[1, 2]'' = None \<or>
      (\<exists>message. json_loads ''[1, 2]'' = Some message \<and>
         request_shape message \<noteq> Inr True \<and> response_shape message \<noteq> Inr True)"
    by simp
  note x = invalid_line_answered [where loads = json_loads and dumps = json_dumps
      and wr = writable and s = "\<lparr>sent = [], decoded = []\<rparr>" and line = "''not-json''"
      and peer_type = "''Server''", OF a w, THEN conjunct1]
  note y = invalid_line_answered [where loads = json_loads and dumps = json_dumps
      and wr = writable and s = "\<lparr>sent = [], decoded = []\<rparr>" and line = "''[1, 2]''"
      and peer_type = "''Client''", OF b w, THEN conjunct1]
  from 1 2 e x y
  show ?thesis by simp
qed

end
